theory Spec2Isabelle
  imports Main
begin

section \<open>Python values used by the three timetabling scripts\<close>

text \<open>
  The scripts \<^verbatim>\<open>basic_timetable.py\<close>, \<^verbatim>\<open>basic_timetable2.py\<close> and
  \<^verbatim>\<open>basic_timetable3.py\<close> each declare their data, build a CP-SAT model through the
  \<^verbatim>\<open>cp_model\<close> API, call the solver once and print the timetable. The data section
  of a script is the input of its model; the solver and the random number generator are
  external and appear as parameters.
\<close>

datatype py_error = KeyError | IndexError | ValueError

text \<open>\<^verbatim>\<open>d[k]\<close> on a dict raises KeyError on a missing key.\<close>

definition dict_get :: "('k \<rightharpoonup> 'v) \<Rightarrow> 'k \<Rightarrow> py_error + 'v" where
  "dict_get d k = (case d k of None \<Rightarrow> Inl KeyError | Some v \<Rightarrow> Inr v)"

text \<open>\<^verbatim>\<open>xs[i]\<close> on a list of length n accepts -n <= i < n and reads from the end
  when i is negative; any other index raises IndexError.\<close>

definition list_get :: "'a list \<Rightarrow> int \<Rightarrow> py_error + 'a" where
  "list_get xs i =
     (if 0 \<le> i \<and> i < int (length xs) then Inr (xs ! nat i)
      else if - int (length xs) \<le> i \<and> i < 0 then Inr (xs ! nat (int (length xs) + i))
      else Inl IndexError)"

text \<open>\<^verbatim>\<open>str(n)\<close> for a non-negative integer, as the f-strings render indices.\<close>

definition digit_char :: "nat \<Rightarrow> char" where
  "digit_char n = ''0123456789'' ! n"

function str_nat :: "nat \<Rightarrow> string" where
  "str_nat n = (if n < 10 then [digit_char n] else str_nat (n div 10) @ [digit_char (n mod 10)])"
  by pat_completeness auto
termination
  by (relation "measure id") auto

text \<open>\<^verbatim>\<open>f"{s:<w}"\<close>: left-justified in a field of width w, padded with spaces.\<close>

definition ljust :: "nat \<Rightarrow> string \<Rightarrow> string" where
  "ljust w s = s @ replicate (w - length s) CHR '' ''"

text \<open>\<^verbatim>\<open>sep.join(xs)\<close>.\<close>

fun join :: "string \<Rightarrow> string list \<Rightarrow> string" where
  "join sep [] = []"
| "join sep [x] = x"
| "join sep (x # y # ys) = x @ sep @ join sep (y # ys)"

section \<open>The part of the cp_model API the scripts use\<close>

text \<open>
  A Boolean variable is identified by the key under which the script stores it in its
  dict: \<open>Xs c s r\<close> is \<^verbatim>\<open>x[(c,s,r)]\<close> of the first two scripts, \<open>Xd c d s r\<close> is
  \<^verbatim>\<open>x[(c,d,s,r)]\<close> and \<open>Yd d s\<close> is \<^verbatim>\<open>y[(d,s)]\<close> of the third. Every
  \<^verbatim>\<open>NewBoolVar\<close> call returns a fresh variable and every key is stored once, so
  distinct keys are distinct variables.
\<close>

datatype var = Xs nat nat nat | Xd nat nat nat nat | Yd nat nat

text \<open>
  The linear expressions the scripts build: \<^verbatim>\<open>sum(v for ...)\<close> over variables,
  \<^verbatim>\<open>k * v\<close>, and an integer. \<^verbatim>\<open>sum\<close> of an empty generator is the integer 0,
  which is the value of \<open>LinSum []\<close>.
\<close>

datatype linexpr = LinSum "var list" | Scaled int var | IntConst int

datatype constraint = LinLe linexpr linexpr | LinEq linexpr linexpr

record cp_model =
  variables :: "(string \<times> var) list"
  constraints :: "constraint list"
  objective :: "linexpr option"

definition CpModel :: cp_model where
  "CpModel = \<lparr>variables = [], constraints = [], objective = None\<rparr>"

definition NewBoolVar :: "string \<Rightarrow> var \<Rightarrow> cp_model \<Rightarrow> cp_model" where
  "NewBoolVar name v m = m\<lparr>variables := variables m @ [(name, v)]\<rparr>"

text \<open>
  \<^verbatim>\<open>model.Add(ct)\<close>. When the generator of a sum is empty, Python compares the
  integer 0 with the right-hand side and \<^verbatim>\<open>Add\<close> receives a bool, which it turns
  into a constraint that always or never holds; the linear constraint over \<open>LinSum []\<close>
  recorded here holds for the same assignments.
\<close>

definition Add :: "constraint \<Rightarrow> cp_model \<Rightarrow> cp_model" where
  "Add ct m = m\<lparr>constraints := constraints m @ [ct]\<rparr>"

definition Minimize :: "linexpr \<Rightarrow> cp_model \<Rightarrow> cp_model" where
  "Minimize e m = m\<lparr>objective := Some e\<rparr>"

text \<open>A loop whose body may raise: the first exception ends it.\<close>

fun for_each :: "'k list \<Rightarrow> ('k \<Rightarrow> 's \<Rightarrow> py_error + 's) \<Rightarrow> 's \<Rightarrow> py_error + 's" where
  "for_each [] body st = Inr st"
| "for_each (k # ks) body st =
     (case body k st of Inl e \<Rightarrow> Inl e | Inr st' \<Rightarrow> for_each ks body st')"

text \<open>\<^verbatim>\<open>model.Add(e)\<close> where evaluating the expression \<open>e\<close> may raise.\<close>

definition add_checked :: "py_error + constraint \<Rightarrow> cp_model \<Rightarrow> py_error + cp_model" where
  "add_checked e m = (case e of Inl err \<Rightarrow> Inl err | Inr ct \<Rightarrow> Inr (Add ct m))"

subsection \<open>What a solver's answer means\<close>

text \<open>
  An assignment gives every variable an integer (\<^verbatim>\<open>solver.Value\<close>). It satisfies a
  model when every declared variable is 0 or 1 and every added constraint holds. This
  is what CP-SAT guarantees of the values it reports with status OPTIMAL or FEASIBLE.
\<close>

fun lin_value :: "(var \<Rightarrow> int) \<Rightarrow> linexpr \<Rightarrow> int" where
  "lin_value a (LinSum vs) = sum_list (map a vs)"
| "lin_value a (Scaled k v) = k * a v"
| "lin_value a (IntConst k) = k"

fun holds :: "(var \<Rightarrow> int) \<Rightarrow> constraint \<Rightarrow> bool" where
  "holds a (LinLe l r) = (lin_value a l \<le> lin_value a r)"
| "holds a (LinEq l r) = (lin_value a l = lin_value a r)"

definition satisfies :: "(var \<Rightarrow> int) \<Rightarrow> cp_model \<Rightarrow> bool" where
  "satisfies a m \<longleftrightarrow>
     list_all (\<lambda>(name, v). a v = 0 \<or> a v = 1) (variables m) \<and>
     list_all (holds a) (constraints m)"

datatype cp_status = UNKNOWN | MODEL_INVALID | FEASIBLE | INFEASIBLE | OPTIMAL

section \<open>basic_timetable.py\<close>

text \<open>\<^verbatim>\<open>f"x_c{c}_s{s}_r{r}"\<close>\<close>

definition x_name :: "nat \<Rightarrow> nat \<Rightarrow> nat \<Rightarrow> string" where
  "x_name c s r = ''x_c'' @ str_nat c @ ''_s'' @ str_nat s @ ''_r'' @ str_nat r"

text \<open>The three nested loops that fill \<^verbatim>\<open>x\<close> (lines 13-16; the same in the second
  script, lines 18-21).\<close>

definition declare_x :: "nat \<Rightarrow> nat \<Rightarrow> nat \<Rightarrow> cp_model \<Rightarrow> cp_model" where
  "declare_x nc ns nr m =
     fold (\<lambda>(c, s, r). NewBoolVar (x_name c s r) (Xs c s r))
       [(c, s, r). c \<leftarrow> [0..<nc], s \<leftarrow> [0..<ns], r \<leftarrow> [0..<nr]] m"

text \<open>\<^verbatim>\<open>sum(x[(c,s,r)] for s in range(len(slots)) for r in range(len(rooms))) == 1\<close>\<close>

definition exactly_once :: "nat \<Rightarrow> nat \<Rightarrow> nat \<Rightarrow> constraint" where
  "exactly_once ns nr c =
     LinEq (LinSum [Xs c s r. s \<leftarrow> [0..<ns], r \<leftarrow> [0..<nr]]) (IntConst 1)"

text \<open>\<^verbatim>\<open>sum(x[(c,s,r)] for c in range(len(courses))) <= 1\<close>\<close>

definition room_clash :: "nat \<Rightarrow> nat \<Rightarrow> nat \<Rightarrow> constraint" where
  "room_clash nc s r = LinLe (LinSum [Xs c s r. c \<leftarrow> [0..<nc]]) (IntConst 1)"

text \<open>Lines 9-26. The list \<^verbatim>\<open>teachers\<close> is declared and never used.\<close>

definition build1 :: "string list \<Rightarrow> string list \<Rightarrow> string list \<Rightarrow> string list \<Rightarrow> cp_model" where
  "build1 teachers courses rooms slots =
     (let nc = length courses; ns = length slots; nr = length rooms;
          m0 = CpModel;
          m1 = declare_x nc ns nr m0;
          m2 = fold (\<lambda>c. Add (exactly_once ns nr c)) [0..<nc] m1;
          m3 = fold (\<lambda>(s, r). Add (room_clash nc s r)) [(s, r). s \<leftarrow> [0..<ns], r \<leftarrow> [0..<nr]] m2
      in m3)"

section \<open>basic_timetable2.py\<close>

text \<open>
  \<^verbatim>\<open>random.randint(a, b)\<close> raises ValueError on an empty range and otherwise returns
  some integer N with a <= N <= b. The generator is a parameter of the model: \<open>rnd k a b\<close>
  is what the k-th call of a run returns when it is called with the bounds a and b, so
  that the value drawn depends on the bounds the script passes. \<open>randint_promise\<close> is
  what the library promises of the generator, for every call and all bounds;
  \<open>randint_result\<close> is the promise about one returned value.
\<close>

type_synonym random_source = "nat \<Rightarrow> int \<Rightarrow> int \<Rightarrow> int"

definition randint :: "random_source \<Rightarrow> nat \<Rightarrow> int \<Rightarrow> int \<Rightarrow> py_error + int" where
  "randint rnd k a b = (if b < a then Inl ValueError else Inr (rnd k a b))"

definition randint_result :: "int \<Rightarrow> int \<Rightarrow> int \<Rightarrow> bool" where
  "randint_result a b n \<longleftrightarrow> a \<le> n \<and> n \<le> b"

definition randint_promise :: "random_source \<Rightarrow> bool" where
  "randint_promise rnd \<longleftrightarrow> (\<forall>k a b. a \<le> b \<longrightarrow> randint_result a b (rnd k a b))"

text \<open>Line 11:
  \<^verbatim>\<open>course_teacher = {c: random.randint(0, len(teachers)-1) for c in range(len(courses))}\<close>.
  The draw for course c is the c-th call of the run.\<close>

definition draw_course_teacher ::
  "string list \<Rightarrow> string list \<Rightarrow> random_source \<Rightarrow> py_error + (nat \<rightharpoonup> int)" where
  "draw_course_teacher teachers courses rnd =
     for_each [0..<length courses]
       (\<lambda>c d. case randint rnd c 0 (int (length teachers) - 1) of
                Inl e \<Rightarrow> Inl e
              | Inr t \<Rightarrow> Inr (d(c \<mapsto> t)))
       Map.empty"

text \<open>The generator clause \<^verbatim>\<open>for c in range(n) if owner[c] == t\<close>: the courses it
  lets through, or the KeyError of the first lookup that fails.\<close>

fun owned_by :: "(nat \<rightharpoonup> int) \<Rightarrow> nat \<Rightarrow> nat list \<Rightarrow> py_error + nat list" where
  "owned_by owner t [] = Inr []"
| "owned_by owner t (c # cs) =
     (case dict_get owner c of
        Inl e \<Rightarrow> Inl e
      | Inr t' \<Rightarrow>
          (case owned_by owner t cs of
             Inl e \<Rightarrow> Inl e
           | Inr rest \<Rightarrow> Inr (if t' = int t then c # rest else rest)))"

text \<open>Lines 37-39:
  \<^verbatim>\<open>sum(x[(c,s,r)] for c in range(len(courses)) if course_teacher[c] == t
               for r in range(len(rooms))) <= 1\<close>\<close>

definition teacher_clash :: "(nat \<rightharpoonup> int) \<Rightarrow> nat \<Rightarrow> nat \<Rightarrow> nat \<Rightarrow> nat \<Rightarrow> py_error + constraint" where
  "teacher_clash course_teacher nc nr t s =
     (case owned_by course_teacher t [0..<nc] of
        Inl e \<Rightarrow> Inl e
      | Inr cs \<Rightarrow> Inr (LinLe (LinSum [Xs c s r. c \<leftarrow> cs, r \<leftarrow> [0..<nr]]) (IntConst 1)))"

text \<open>Lines 14-39.\<close>

definition build2 ::
  "string list \<Rightarrow> string list \<Rightarrow> string list \<Rightarrow> string list \<Rightarrow> (nat \<rightharpoonup> int)
     \<Rightarrow> py_error + cp_model" where
  "build2 teachers courses rooms slots course_teacher =
     (let nc = length courses; ns = length slots; nr = length rooms;
          m0 = CpModel;
          m1 = declare_x nc ns nr m0;
          m2 = fold (\<lambda>c. Add (exactly_once ns nr c)) [0..<nc] m1;
          m3 = fold (\<lambda>(s, r). Add (room_clash nc s r)) [(s, r). s \<leftarrow> [0..<ns], r \<leftarrow> [0..<nr]] m2
      in for_each [(t, s). t \<leftarrow> [0..<length teachers], s \<leftarrow> [0..<ns]]
           (\<lambda>(t, s). add_checked (teacher_clash course_teacher nc nr t s))
           m3)"

section \<open>basic_timetable3.py\<close>

text \<open>\<^verbatim>\<open>f"x_c{c}_d{d}_s{s}_r{r}"\<close> and \<^verbatim>\<open>f"y_d{d}_s{s}"\<close>\<close>

definition xd_name :: "nat \<Rightarrow> nat \<Rightarrow> nat \<Rightarrow> nat \<Rightarrow> string" where
  "xd_name c d s r =
     ''x_c'' @ str_nat c @ ''_d'' @ str_nat d @ ''_s'' @ str_nat s @ ''_r'' @ str_nat r"

definition y_name :: "nat \<Rightarrow> nat \<Rightarrow> string" where
  "y_name d s = ''y_d'' @ str_nat d @ ''_s'' @ str_nat s"

text \<open>Lines 42-53: the variables \<^verbatim>\<open>x\<close>, then \<^verbatim>\<open>y\<close>.\<close>

definition declare_xy :: "nat \<Rightarrow> nat \<Rightarrow> nat \<Rightarrow> nat \<Rightarrow> cp_model \<Rightarrow> cp_model" where
  "declare_xy nc nd ns nr m =
     (let m1 = fold (\<lambda>(c, d, s, r). NewBoolVar (xd_name c d s r) (Xd c d s r))
                 [(c, d, s, r). c \<leftarrow> [0..<nc], d \<leftarrow> [0..<nd], s \<leftarrow> [0..<ns], r \<leftarrow> [0..<nr]] m
      in fold (\<lambda>(d, s). NewBoolVar (y_name d s) (Yd d s))
           [(d, s). d \<leftarrow> [0..<nd], s \<leftarrow> [0..<ns]] m1)"

text \<open>
  Constraint 1 (lines 58-64): the left side, then \<^verbatim>\<open>course_freq[c]\<close>, then
  \<^verbatim>\<open>==\<close>. Comparing a linear expression with an integer, the library accepts the
  integer only in the range of a signed 64-bit number and raises otherwise (a ValueError
  here). When there is no variable to sum, the left side is the Python integer 0, the
  comparison is Python's own and nothing is checked.
\<close>

definition int64 :: "int \<Rightarrow> bool" where
  "int64 k \<longleftrightarrow> - (2 ^ 63) \<le> k \<and> k < 2 ^ 63"

definition frequency :: "(nat \<rightharpoonup> int) \<Rightarrow> nat \<Rightarrow> nat \<Rightarrow> nat \<Rightarrow> nat \<Rightarrow> py_error + constraint" where
  "frequency course_freq nd ns nr c =
     (let vs = [Xd c d s r. d \<leftarrow> [0..<nd], s \<leftarrow> [0..<ns], r \<leftarrow> [0..<nr]]
      in case dict_get course_freq c of
           Inl e \<Rightarrow> Inl e
         | Inr f \<Rightarrow>
             if vs \<noteq> [] \<and> \<not> int64 f then Inl ValueError
             else Inr (LinEq (LinSum vs) (IntConst f)))"

text \<open>Constraint 2 (lines 67-73).\<close>

definition once_per_day :: "nat \<Rightarrow> nat \<Rightarrow> nat \<Rightarrow> nat \<Rightarrow> constraint" where
  "once_per_day ns nr c d =
     LinLe (LinSum [Xd c d s r. s \<leftarrow> [0..<ns], r \<leftarrow> [0..<nr]]) (IntConst 1)"

text \<open>Constraint 3 (lines 76-81).\<close>

definition room_clash_d :: "nat \<Rightarrow> nat \<Rightarrow> nat \<Rightarrow> nat \<Rightarrow> constraint" where
  "room_clash_d nc d s r = LinLe (LinSum [Xd c d s r. c \<leftarrow> [0..<nc]]) (IntConst 1)"

text \<open>Constraint 4 (lines 84-93).\<close>

definition prof_clash ::
  "(nat \<rightharpoonup> int) \<Rightarrow> nat \<Rightarrow> nat \<Rightarrow> nat \<Rightarrow> nat \<Rightarrow> nat \<Rightarrow> py_error + constraint" where
  "prof_clash course_prof nc nr p d s =
     (case owned_by course_prof p [0..<nc] of
        Inl e \<Rightarrow> Inl e
      | Inr cs \<Rightarrow> Inr (LinLe (LinSum [Xd c d s r. c \<leftarrow> cs, r \<leftarrow> [0..<nr]]) (IntConst 1)))"

text \<open>Constraint 5 (lines 97-103), with \<^verbatim>\<open>bigM = num_courses * num_rooms\<close>.\<close>

definition link_xy :: "int \<Rightarrow> nat \<Rightarrow> nat \<Rightarrow> nat \<Rightarrow> nat \<Rightarrow> constraint" where
  "link_xy bigM nc nr d s =
     LinLe (LinSum [Xd c d s r. c \<leftarrow> [0..<nc], r \<leftarrow> [0..<nr]]) (Scaled bigM (Yd d s))"

text \<open>Lines 38-109. \<^verbatim>\<open>num_days\<close>, \<^verbatim>\<open>num_rooms\<close> and \<^verbatim>\<open>num_courses\<close> are the
  lengths of the lists.\<close>

definition build3 ::
  "string list \<Rightarrow> nat \<Rightarrow> string list \<Rightarrow> string list \<Rightarrow> (nat \<rightharpoonup> int) \<Rightarrow> string list
     \<Rightarrow> (nat \<rightharpoonup> int) \<Rightarrow> py_error + cp_model" where
  "build3 days max_slots_per_day rooms courses course_freq professors course_prof =
     (let nd = length days; ns = max_slots_per_day; nr = length rooms; nc = length courses;
          m0 = CpModel;
          m1 = declare_xy nc nd ns nr m0
      in case for_each [0..<nc] (\<lambda>c. add_checked (frequency course_freq nd ns nr c)) m1 of
           Inl e \<Rightarrow> Inl e
         | Inr m2 \<Rightarrow>
             (let m3 = fold (\<lambda>(c, d). Add (once_per_day ns nr c d))
                         [(c, d). c \<leftarrow> [0..<nc], d \<leftarrow> [0..<nd]] m2;
                  m4 = fold (\<lambda>(d, s, r). Add (room_clash_d nc d s r))
                         [(d, s, r). d \<leftarrow> [0..<nd], s \<leftarrow> [0..<ns], r \<leftarrow> [0..<nr]] m3
              in case for_each
                        [(p, d, s). p \<leftarrow> [0..<length professors], d \<leftarrow> [0..<nd], s \<leftarrow> [0..<ns]]
                        (\<lambda>(p, d, s). add_checked (prof_clash course_prof nc nr p d s))
                        m4 of
                   Inl e \<Rightarrow> Inl e
                 | Inr m5 \<Rightarrow>
                     (let bigM = int (nc * nr);
                          m6 = fold (\<lambda>(d, s). Add (link_xy bigM nc nr d s))
                                 [(d, s). d \<leftarrow> [0..<nd], s \<leftarrow> [0..<ns]] m5
                      in Inr (Minimize (LinSum [Yd d s. d \<leftarrow> [0..<nd], s \<leftarrow> [0..<ns]]) m6))))"

section \<open>Solving and printing\<close>

text \<open>
  The solver is external: a function from the parameters set on it and the model to the
  status it returns and the values \<^verbatim>\<open>solver.Value\<close> would report. A run records the
  models passed to \<^verbatim>\<open>Solve\<close>, the variables whose value was read and the strings
  printed (one per \<^verbatim>\<open>print\<close> call, without the newline that \<^verbatim>\<open>print\<close> appends).
\<close>

record sat_parameters =
  num_search_workers :: "nat option"
  max_time_in_seconds :: "nat option"

type_synonym solver = "sat_parameters \<Rightarrow> cp_model \<Rightarrow> cp_status \<times> (var \<Rightarrow> int)"

record run_state =
  solve_calls :: "cp_model list"
  value_reads :: "var list"
  printed :: "string list"

definition start :: run_state where
  "start = \<lparr>solve_calls = [], value_reads = [], printed = []\<rparr>"

definition Solve ::
  "solver \<Rightarrow> sat_parameters \<Rightarrow> cp_model \<Rightarrow> run_state \<Rightarrow> (cp_status \<times> (var \<Rightarrow> int)) \<times> run_state" where
  "Solve solve params m st = (solve params m, st\<lparr>solve_calls := solve_calls st @ [m]\<rparr>)"

definition Value :: "(var \<Rightarrow> int) \<Rightarrow> var \<Rightarrow> run_state \<Rightarrow> int \<times> run_state" where
  "Value a v st = (a v, st\<lparr>value_reads := value_reads st @ [v]\<rparr>)"

definition print :: "string \<Rightarrow> run_state \<Rightarrow> run_state" where
  "print line st = st\<lparr>printed := printed st @ [line]\<rparr>"

subsection \<open>basic_timetable.py, lines 29-40\<close>

text \<open>\<^verbatim>\<open>f" Course {courses[c]} in {rooms[r]} at {slots[s]}"\<close>; the three indices
  come from \<^verbatim>\<open>range(len(...))\<close> of the list they index.\<close>

definition placement_line1 :: "string list \<Rightarrow> string list \<Rightarrow> string list \<Rightarrow> nat \<Rightarrow> nat \<Rightarrow> nat \<Rightarrow> string" where
  "placement_line1 courses rooms slots c s r =
     '' Course '' @ courses ! c @ '' in '' @ rooms ! r @ '' at '' @ slots ! s"

definition report1 ::
  "string list \<Rightarrow> string list \<Rightarrow> string list \<Rightarrow> (var \<Rightarrow> int) \<Rightarrow> run_state \<Rightarrow> run_state" where
  "report1 courses rooms slots a st =
     fold (\<lambda>(c, s, r) st. let (v, st') = Value a (Xs c s r) st
                           in if v = 1 then print (placement_line1 courses rooms slots c s r) st'
                              else st')
       [(c, s, r). c \<leftarrow> [0..<length courses], s \<leftarrow> [0..<length slots], r \<leftarrow> [0..<length rooms]]
       (print ''Timetable:'' st)"

definition run1 ::
  "string list \<Rightarrow> string list \<Rightarrow> string list \<Rightarrow> string list \<Rightarrow> solver \<Rightarrow> run_state" where
  "run1 teachers courses rooms slots solve =
     (let model = build1 teachers courses rooms slots;
          params = \<lparr>num_search_workers = None, max_time_in_seconds = None\<rparr>;
          ((status, a), st) = Solve solve params model start
      in if status = OPTIMAL \<or> status = FEASIBLE then report1 courses rooms slots a st
         else print ''No feasible solution.'' st)"

subsection \<open>basic_timetable2.py, lines 42-59\<close>

text \<open>\<^verbatim>\<open>f"{courses[c]:<10} taught by {teacher:<10} in {rooms[r]:<6} at {slots[s]}"\<close>\<close>

definition placement_line2 ::
  "string list \<Rightarrow> string list \<Rightarrow> string list \<Rightarrow> string \<Rightarrow> nat \<Rightarrow> nat \<Rightarrow> nat \<Rightarrow> string" where
  "placement_line2 courses rooms slots teacher c s r =
     ljust 10 (courses ! c) @ '' taught by '' @ ljust 10 teacher @ '' in '' @
     ljust 6 (rooms ! r) @ '' at '' @ slots ! s"

text \<open>\<^verbatim>\<open>teachers[course_teacher[c]]\<close>\<close>

definition teacher_of :: "string list \<Rightarrow> (nat \<rightharpoonup> int) \<Rightarrow> nat \<Rightarrow> py_error + string" where
  "teacher_of teachers course_teacher c =
     (case dict_get course_teacher c of
        Inl e \<Rightarrow> Inl e
      | Inr t \<Rightarrow> list_get teachers t)"

definition report2 ::
  "string list \<Rightarrow> string list \<Rightarrow> string list \<Rightarrow> string list \<Rightarrow> (nat \<rightharpoonup> int) \<Rightarrow> (var \<Rightarrow> int)
     \<Rightarrow> run_state \<Rightarrow> py_error + run_state" where
  "report2 teachers courses rooms slots course_teacher a st =
     for_each
       [(c, s, r). c \<leftarrow> [0..<length courses], s \<leftarrow> [0..<length slots], r \<leftarrow> [0..<length rooms]]
       (\<lambda>(c, s, r) st. let (v, st') = Value a (Xs c s r) st
                        in if v = 1 then
                             (case teacher_of teachers course_teacher c of
                                Inl e \<Rightarrow> Inl e
                              | Inr teacher \<Rightarrow>
                                  Inr (print (placement_line2 courses rooms slots teacher c s r) st'))
                           else Inr st')
       (print (''Generated Timetable:'' @ [CHR 0x0A]) st)"

text \<open>Lines 11-39: the draw of the owners, then the model built from them.\<close>

definition construct2 ::
  "string list \<Rightarrow> string list \<Rightarrow> string list \<Rightarrow> string list \<Rightarrow> random_source
     \<Rightarrow> py_error + (nat \<rightharpoonup> int) \<times> cp_model" where
  "construct2 teachers courses rooms slots rnd =
     (case draw_course_teacher teachers courses rnd of
        Inl e \<Rightarrow> Inl e
      | Inr course_teacher \<Rightarrow>
          (case build2 teachers courses rooms slots course_teacher of
             Inl e \<Rightarrow> Inl e
           | Inr model \<Rightarrow> Inr (course_teacher, model)))"

definition run2 ::
  "string list \<Rightarrow> string list \<Rightarrow> string list \<Rightarrow> string list \<Rightarrow> random_source \<Rightarrow> solver
     \<Rightarrow> py_error + run_state" where
  "run2 teachers courses rooms slots rnd solve =
     (case construct2 teachers courses rooms slots rnd of
        Inl e \<Rightarrow> Inl e
      | Inr (course_teacher, model) \<Rightarrow>
          (let params = \<lparr>num_search_workers = Some 8, max_time_in_seconds = Some 30\<rparr>;
               ((status, a), st) = Solve solve params model start
           in if status = OPTIMAL \<or> status = FEASIBLE
              then report2 teachers courses rooms slots course_teacher a st
              else Inr (print ''No feasible solution found.'' st)))"

subsection \<open>basic_timetable3.py, lines 112-154\<close>

text \<open>Lines 133-138: the first course found in room r at (d, s) gives the cell and ends
  the loop; \<open>None\<close> when the loop ends without \<^verbatim>\<open>found\<close>.\<close>

fun first_course ::
  "string list \<Rightarrow> string list \<Rightarrow> string list \<Rightarrow> (nat \<rightharpoonup> int) \<Rightarrow> (var \<Rightarrow> int)
     \<Rightarrow> nat \<Rightarrow> nat \<Rightarrow> nat \<Rightarrow> nat list \<Rightarrow> run_state \<Rightarrow> py_error + (string option \<times> run_state)" where
  "first_course rooms courses professors course_prof a d s r [] st = Inr (None, st)"
| "first_course rooms courses professors course_prof a d s r (c # cs) st =
     (let (v, st') = Value a (Xd c d s r) st
      in if v = 1 then
           (case teacher_of professors course_prof c of
              Inl e \<Rightarrow> Inl e
            | Inr prof \<Rightarrow>
                Inr (Some (rooms ! r @ '': '' @ courses ! c @ '' ('' @ prof @ '')''), st'))
         else first_course rooms courses professors course_prof a d s r cs st')"

text \<open>Lines 130-141: one printed row of a used slot.\<close>

definition slot_row ::
  "string list \<Rightarrow> string list \<Rightarrow> string list \<Rightarrow> (nat \<rightharpoonup> int) \<Rightarrow> (var \<Rightarrow> int)
     \<Rightarrow> nat \<Rightarrow> nat \<Rightarrow> run_state \<Rightarrow> py_error + run_state" where
  "slot_row rooms courses professors course_prof a d s st =
     (case for_each [0..<length rooms]
             (\<lambda>r (row, st).
                case first_course rooms courses professors course_prof a d s r
                       [0..<length courses] st of
                  Inl e \<Rightarrow> Inl e
                | Inr (Some cell, st') \<Rightarrow> Inr (row @ [cell], st')
                | Inr (None, st') \<Rightarrow> Inr (row @ [rooms ! r @ '': -''], st'))
             ([], st) of
        Inl e \<Rightarrow> Inl e
      | Inr (row, st') \<Rightarrow>
          Inr (print ('' Slot'' @ str_nat (s + 1) @ '': '' @ join '' | '' row) st'))"

text \<open>Lines 123-142: the weekly grid.\<close>

definition weekly_grid ::
  "string list \<Rightarrow> nat \<Rightarrow> string list \<Rightarrow> string list \<Rightarrow> string list \<Rightarrow> (nat \<rightharpoonup> int)
     \<Rightarrow> (var \<Rightarrow> int) \<Rightarrow> run_state \<Rightarrow> py_error + run_state" where
  "weekly_grid days max_slots_per_day rooms courses professors course_prof a st =
     for_each [0..<length days]
       (\<lambda>d st.
          case for_each [0..<max_slots_per_day]
                 (\<lambda>s st. let (v, st') = Value a (Yd d s) st
                          in if v = 0 then Inr st'
                             else slot_row rooms courses professors course_prof a d s st')
                 (print (''=== '' @ days ! d @ '' ==='') st) of
            Inl e \<Rightarrow> Inl e
          | Inr st' \<Rightarrow> Inr (print [] st'))
       st"

text \<open>Lines 146-151: the list \<^verbatim>\<open>placements\<close> of one course.\<close>

definition course_placements ::
  "string list \<Rightarrow> nat \<Rightarrow> string list \<Rightarrow> (var \<Rightarrow> int) \<Rightarrow> nat \<Rightarrow> run_state
     \<Rightarrow> string list \<times> run_state" where
  "course_placements days max_slots_per_day rooms a c st =
     fold (\<lambda>(d, s, r) (placements, st).
             let (v, st') = Value a (Xd c d s r) st
             in if v = 1
                then (placements @ [days ! d @ '' Slot'' @ str_nat (s + 1) @ '' in '' @ rooms ! r], st')
                else (placements, st'))
       [(d, s, r). d \<leftarrow> [0..<length days], s \<leftarrow> [0..<max_slots_per_day], r \<leftarrow> [0..<length rooms]]
       ([], st)"

text \<open>Lines 144-152.\<close>

definition per_course ::
  "string list \<Rightarrow> nat \<Rightarrow> string list \<Rightarrow> string list \<Rightarrow> (var \<Rightarrow> int) \<Rightarrow> run_state \<Rightarrow> run_state" where
  "per_course days max_slots_per_day rooms courses a st =
     fold (\<lambda>c st. let (placements, st') = course_placements days max_slots_per_day rooms a c st
                   in print ('' '' @ ljust 8 (courses ! c) @ '' -> '' @ join '', '' placements) st')
       [0..<length courses]
       (print ''Per-course schedule:'' st)"

definition report3 ::
  "string list \<Rightarrow> nat \<Rightarrow> string list \<Rightarrow> string list \<Rightarrow> string list \<Rightarrow> (nat \<rightharpoonup> int)
     \<Rightarrow> (var \<Rightarrow> int) \<Rightarrow> run_state \<Rightarrow> py_error + run_state" where
  "report3 days max_slots_per_day rooms courses professors course_prof a st =
     (case weekly_grid days max_slots_per_day rooms courses professors course_prof a
             (print (''Weekly schedule (Day -> Slot -> Room : Course (Prof))'' @ [CHR 0x0A]) st) of
        Inl e \<Rightarrow> Inl e
      | Inr st' \<Rightarrow> Inr (per_course days max_slots_per_day rooms courses a st'))"

definition run3 ::
  "string list \<Rightarrow> nat \<Rightarrow> string list \<Rightarrow> string list \<Rightarrow> (nat \<rightharpoonup> int) \<Rightarrow> string list
     \<Rightarrow> (nat \<rightharpoonup> int) \<Rightarrow> solver \<Rightarrow> py_error + run_state" where
  "run3 days max_slots_per_day rooms courses course_freq professors course_prof solve =
     (case build3 days max_slots_per_day rooms courses course_freq professors course_prof of
        Inl e \<Rightarrow> Inl e
      | Inr model \<Rightarrow>
          (let params = \<lparr>num_search_workers = Some 8, max_time_in_seconds = Some 30\<rparr>;
               ((status, a), st) = Solve solve params model start
           in if status = OPTIMAL \<or> status = FEASIBLE
              then report3 days max_slots_per_day rooms courses professors course_prof a st
              else Inr (print
                     ''No feasible solution found. Try increasing slots per day or relaxing constraints.''
                     st)))"

section \<open>The data the three scripts declare\<close>

definition teachers1 :: "string list" where "teachers1 = [''Prof A'', ''Prof B'']"
definition courses1 :: "string list" where "courses1 = [''Math'', ''Physics'']"
definition rooms1 :: "string list" where "rooms1 = [''Room1'', ''Room2'']"
definition slots1 :: "string list" where "slots1 = [''Morning'', ''Afternoon'']"

definition basic_timetable :: "solver \<Rightarrow> run_state" where
  "basic_timetable solve = run1 teachers1 courses1 rooms1 slots1 solve"

text \<open>\<^verbatim>\<open>chr(65+i)\<close> is a letter A..J here.\<close>

definition teachers2 :: "string list" where
  "teachers2 = map (\<lambda>i. ''Teacher '' @ [char_of (65 + i)]) [0..<10]"
definition courses2 :: "string list" where
  "courses2 = map (\<lambda>i. ''Course'' @ str_nat (i + 1)) [0..<20]"
definition rooms2 :: "string list" where
  "rooms2 = map (\<lambda>r. ''Room'' @ str_nat (r + 1)) [0..<5]"
definition slots2 :: "string list" where
  "slots2 = map (\<lambda>s. ''Slot'' @ str_nat (s + 1)) [0..<8]"

definition basic_timetable2 :: "random_source \<Rightarrow> solver \<Rightarrow> py_error + run_state" where
  "basic_timetable2 rnd solve = run2 teachers2 courses2 rooms2 slots2 rnd solve"

definition days3 :: "string list" where
  "days3 = [''Mon'', ''Tue'', ''Wed'', ''Thu'', ''Fri'']"
definition max_slots_per_day3 :: nat where "max_slots_per_day3 = 6"
definition rooms3 :: "string list" where
  "rooms3 = map (\<lambda>i. ''Room'' @ str_nat (i + 1)) [0..<3]"
definition courses3 :: "string list" where
  "courses3 = map (\<lambda>i. ''Course'' @ str_nat (i + 1)) [0..<6]"
definition course_freq3 :: "nat \<rightharpoonup> int" where
  "course_freq3 = [0 \<mapsto> 3, 1 \<mapsto> 3, 2 \<mapsto> 3, 3 \<mapsto> 3, 4 \<mapsto> 2, 5 \<mapsto> 2]"
definition professors3 :: "string list" where "professors3 = [''Prof1'', ''Prof2'']"
definition course_prof3 :: "nat \<rightharpoonup> int" where
  "course_prof3 = [0 \<mapsto> 0, 1 \<mapsto> 1, 2 \<mapsto> 0, 3 \<mapsto> 1, 4 \<mapsto> 1, 5 \<mapsto> 0]"

definition basic_timetable3 :: "solver \<Rightarrow> py_error + run_state" where
  "basic_timetable3 solve =
     run3 days3 max_slots_per_day3 rooms3 courses3 course_freq3 professors3 course_prof3 solve"

section \<open>Notions used to state the properties\<close>

text \<open>The courses c in \<^verbatim>\<open>range(nc)\<close> with \<^verbatim>\<open>owner[c] == t\<close>: the courses of
  teacher (or professor) t.\<close>

definition owned :: "(nat \<rightharpoonup> int) \<Rightarrow> nat \<Rightarrow> nat \<Rightarrow> nat list" where
  "owned owner nc t = filter (\<lambda>c. owner c = Some (int t)) [0..<nc]"

text \<open>The variables of a list that an assignment sets to 1: the placements among them,
  as the printing loops select them (\<^verbatim>\<open>if solver.Value(x[...]) == 1\<close>).\<close>

definition placed :: "(var \<Rightarrow> int) \<Rightarrow> var list \<Rightarrow> var list" where
  "placed a vs = filter (\<lambda>v. a v = 1) vs"

text \<open>The variables a model declares.\<close>

definition declared :: "cp_model \<Rightarrow> var set" where
  "declared m = snd ` set (variables m)"

text \<open>The value of the objective under an assignment; a model without objective has
  none to compare.\<close>

definition objective_value :: "(var \<Rightarrow> int) \<Rightarrow> cp_model \<Rightarrow> int" where
  "objective_value a m = (case objective m of None \<Rightarrow> 0 | Some e \<Rightarrow> lin_value a e)"

text \<open>An index that \<^verbatim>\<open>xs[i]\<close> accepts.\<close>

definition valid_index :: "'a list \<Rightarrow> int \<Rightarrow> bool" where
  "valid_index xs i \<longleftrightarrow> - int (length xs) \<le> i \<and> i < int (length xs)"

subsection \<open>The models in closed form\<close>

text \<open>
  What the loops of the three scripts add up to, family by family. The lemmas
  \<open>build1_eq\<close>, \<open>build2_Inr\<close>, \<open>build2_total\<close> and \<open>build3_iff\<close> below prove that
  the builders produce exactly these models.
\<close>

definition variables12 :: "nat \<Rightarrow> nat \<Rightarrow> nat \<Rightarrow> (string \<times> var) list" where
  "variables12 nc ns nr =
     map (\<lambda>(c, s, r). (x_name c s r, Xs c s r))
       [(c, s, r). c \<leftarrow> [0..<nc], s \<leftarrow> [0..<ns], r \<leftarrow> [0..<nr]]"

definition constraints1 :: "nat \<Rightarrow> nat \<Rightarrow> nat \<Rightarrow> constraint list" where
  "constraints1 nc ns nr =
     map (exactly_once ns nr) [0..<nc] @
     map (\<lambda>(s, r). room_clash nc s r) [(s, r). s \<leftarrow> [0..<ns], r \<leftarrow> [0..<nr]]"

definition teacher_family :: "(nat \<rightharpoonup> int) \<Rightarrow> nat \<Rightarrow> nat \<Rightarrow> nat \<Rightarrow> nat \<Rightarrow> constraint list" where
  "teacher_family owner nt nc ns nr =
     map (\<lambda>(t, s). LinLe (LinSum [Xs c s r. c \<leftarrow> owned owner nc t, r \<leftarrow> [0..<nr]]) (IntConst 1))
       [(t, s). t \<leftarrow> [0..<nt], s \<leftarrow> [0..<ns]]"

definition model2 :: "(nat \<rightharpoonup> int) \<Rightarrow> nat \<Rightarrow> nat \<Rightarrow> nat \<Rightarrow> nat \<Rightarrow> cp_model" where
  "model2 owner nt nc ns nr =
     \<lparr>variables = variables12 nc ns nr,
      constraints = constraints1 nc ns nr @ teacher_family owner nt nc ns nr,
      objective = None\<rparr>"

definition variables3 :: "nat \<Rightarrow> nat \<Rightarrow> nat \<Rightarrow> nat \<Rightarrow> (string \<times> var) list" where
  "variables3 nc nd ns nr =
     map (\<lambda>(c, d, s, r). (xd_name c d s r, Xd c d s r))
       [(c, d, s, r). c \<leftarrow> [0..<nc], d \<leftarrow> [0..<nd], s \<leftarrow> [0..<ns], r \<leftarrow> [0..<nr]] @
     map (\<lambda>(d, s). (y_name d s, Yd d s)) [(d, s). d \<leftarrow> [0..<nd], s \<leftarrow> [0..<ns]]"

definition frequency_family :: "(nat \<rightharpoonup> int) \<Rightarrow> nat \<Rightarrow> nat \<Rightarrow> nat \<Rightarrow> nat \<Rightarrow> constraint list" where
  "frequency_family course_freq nc nd ns nr =
     map (\<lambda>c. LinEq (LinSum [Xd c d s r. d \<leftarrow> [0..<nd], s \<leftarrow> [0..<ns], r \<leftarrow> [0..<nr]])
                 (IntConst (the (course_freq c)))) [0..<nc]"

definition day_family :: "nat \<Rightarrow> nat \<Rightarrow> nat \<Rightarrow> nat \<Rightarrow> constraint list" where
  "day_family nc nd ns nr =
     map (\<lambda>(c, d). once_per_day ns nr c d) [(c, d). c \<leftarrow> [0..<nc], d \<leftarrow> [0..<nd]]"

definition room_family :: "nat \<Rightarrow> nat \<Rightarrow> nat \<Rightarrow> nat \<Rightarrow> constraint list" where
  "room_family nc nd ns nr =
     map (\<lambda>(d, s, r). room_clash_d nc d s r)
       [(d, s, r). d \<leftarrow> [0..<nd], s \<leftarrow> [0..<ns], r \<leftarrow> [0..<nr]]"

definition prof_family :: "(nat \<rightharpoonup> int) \<Rightarrow> nat \<Rightarrow> nat \<Rightarrow> nat \<Rightarrow> nat \<Rightarrow> nat \<Rightarrow> constraint list" where
  "prof_family owner np nc nd ns nr =
     map (\<lambda>(p, d, s). LinLe (LinSum [Xd c d s r. c \<leftarrow> owned owner nc p, r \<leftarrow> [0..<nr]]) (IntConst 1))
       [(p, d, s). p \<leftarrow> [0..<np], d \<leftarrow> [0..<nd], s \<leftarrow> [0..<ns]]"

definition link_family :: "nat \<Rightarrow> nat \<Rightarrow> nat \<Rightarrow> nat \<Rightarrow> constraint list" where
  "link_family nc nd ns nr =
     map (\<lambda>(d, s). link_xy (int (nc * nr)) nc nr d s) [(d, s). d \<leftarrow> [0..<nd], s \<leftarrow> [0..<ns]]"

definition model3 ::
  "(nat \<rightharpoonup> int) \<Rightarrow> (nat \<rightharpoonup> int) \<Rightarrow> nat \<Rightarrow> nat \<Rightarrow> nat \<Rightarrow> nat \<Rightarrow> nat \<Rightarrow> cp_model" where
  "model3 course_freq owner np nc nd ns nr =
     \<lparr>variables = variables3 nc nd ns nr,
      constraints = frequency_family course_freq nc nd ns nr @ day_family nc nd ns nr @
        room_family nc nd ns nr @ prof_family owner np nc nd ns nr @ link_family nc nd ns nr,
      objective = Some (LinSum [Yd d s. d \<leftarrow> [0..<nd], s \<leftarrow> [0..<ns]])\<rparr>"

subsection \<open>A two-course instance on which the theorems are exercised\<close>

text \<open>
  The first script's two courses, two rooms and two teachers; for the third script a
  two-day week with two slots a day, Math twice and Physics once a week. In
  \<open>demo_values\<close> Math is in the morning and Physics in the afternoon (first two
  scripts); Math is in slot 0 on both days and Physics in slot 1 on Monday (third
  script), and every \<^verbatim>\<open>y\<close> is 1, also that of Tuesday's unused slot 1.
\<close>

definition demo_owner :: "nat \<rightharpoonup> int" where
  "demo_owner = [0 \<mapsto> 0, 1 \<mapsto> 1]"

definition demo_freq :: "nat \<rightharpoonup> int" where
  "demo_freq = [0 \<mapsto> 2, 1 \<mapsto> 1]"

definition demo_days :: "string list" where
  "demo_days = [''Mon'', ''Tue'']"

definition demo_values :: "var \<Rightarrow> int" where
  "demo_values v =
     (if v \<in> set [Xs 0 0 0, Xs 1 1 0, Xd 0 0 0 0, Xd 0 1 0 0, Xd 1 0 1 0,
                   Yd 0 0, Yd 0 1, Yd 1 0, Yd 1 1] then 1 else 0)"

text \<open>Both courses in the morning, Math in the first room and Physics in the second.\<close>

definition clash_values :: "var \<Rightarrow> int" where
  "clash_values v = (if v \<in> set [Xs 0 0 0, Xs 1 0 1] then 1 else 0)"

subsection \<open>Draws and printed placements\<close>

text \<open>The dict that line 11 of the second script builds from the draws.\<close>

definition drawn :: "nat \<Rightarrow> (nat \<Rightarrow> int) \<Rightarrow> (nat \<rightharpoonup> int)" where
  "drawn nc rnd = (\<lambda>c. if c < nc then Some (rnd c) else None)"

text \<open>A generator that keeps the library's promise for all bounds: the k-th call
  returns the k-th value of the range it is given, cyclically.\<close>

definition cycle_source :: random_source where
  "cycle_source k a b = a + int k mod (b - a + 1)"

text \<open>The keys whose line the first two scripts print, in printing order.\<close>

definition placements :: "(var \<Rightarrow> int) \<Rightarrow> nat \<Rightarrow> nat \<Rightarrow> nat \<Rightarrow> (nat \<times> nat \<times> nat) list" where
  "placements a nc ns nr =
     filter (\<lambda>(c, s, r). a (Xs c s r) = 1)
       [(c, s, r). c \<leftarrow> [0..<nc], s \<leftarrow> [0..<ns], r \<leftarrow> [0..<nr]]"

text \<open>The keys behind the list \<^verbatim>\<open>placements\<close> of one course in the third script, and
  the line printed for the course (line 152).\<close>

definition course_sessions ::
  "(var \<Rightarrow> int) \<Rightarrow> nat \<Rightarrow> nat \<Rightarrow> nat \<Rightarrow> nat \<Rightarrow> (nat \<times> nat \<times> nat) list" where
  "course_sessions a nd ns nr c =
     filter (\<lambda>(d, s, r). a (Xd c d s r) = 1)
       [(d, s, r). d \<leftarrow> [0..<nd], s \<leftarrow> [0..<ns], r \<leftarrow> [0..<nr]]"

definition course_line ::
  "string list \<Rightarrow> string list \<Rightarrow> string list \<Rightarrow> nat \<Rightarrow> (nat \<times> nat \<times> nat) list \<Rightarrow> string" where
  "course_line days rooms courses c sessions =
     '' '' @ ljust 8 (courses ! c) @ '' -> '' @
     join '', '' (map (\<lambda>(d, s, r). days ! d @ '' Slot'' @ str_nat (s + 1) @ '' in '' @ rooms ! r)
                    sessions)"

subsection \<open>A timetable for the third script's own data\<close>

text \<open>
  Courses 1 and 2 in slot 0, courses 3 and 4 in slot 1, courses 6 and 5 in slot 2, the
  courses of Prof1 in the first room and those of Prof2 in the second, on the first
  three days of the week (two for courses 5 and 6); every \<^verbatim>\<open>y\<close> is 1.
\<close>

definition week_values :: "var \<Rightarrow> int" where
  "week_values v =
     (case v of
        Xd c d s r \<Rightarrow>
          (if (c, s, r) \<in> set [(0, 0, 0), (1, 0, 1), (2, 1, 0), (3, 1, 1), (4, 2, 1), (5, 2, 0)] \<and>
              d < (if c < 4 then 3 else 2)
           then 1 else 0)
      | Yd d s \<Rightarrow> 1
      | Xs c s r \<Rightarrow> 0)"

section \<open>The builders in closed form\<close>

lemma fold_Add:
  "fold (\<lambda>k. Add (f k)) ks m = m\<lparr>constraints := constraints m @ map f ks\<rparr>"
  by (induction ks arbitrary: m) (simp_all add: Add_def)

lemma fold_NewBoolVar:
  "fold (\<lambda>k. NewBoolVar (n k) (v k)) ks m = m\<lparr>variables := variables m @ map (\<lambda>k. (n k, v k)) ks\<rparr>"
  by (induction ks arbitrary: m) (simp_all add: NewBoolVar_def)

lemma for_each_add_checked:
  "for_each ks (\<lambda>k. add_checked (g k)) m = Inr m' \<longleftrightarrow>
     (\<forall>k\<in>set ks. \<not> isl (g k)) \<and> m' = m\<lparr>constraints := constraints m @ map (\<lambda>k. projr (g k)) ks\<rparr>"
proof (induction ks arbitrary: m)
  case Nil
  then show ?case by auto
next
  case (Cons k ks)
  show ?case
  proof (cases "g k")
    case (Inl e)
    then show ?thesis by (simp add: add_checked_def)
  next
    case (Inr ct)
    then show ?thesis using Cons.IH [of "Add ct m"]
      by (simp add: add_checked_def Add_def)
  qed
qed

lemma owned_by_Inr:
  "owned_by owner t cs = Inr r \<Longrightarrow> r = filter (\<lambda>c. owner c = Some (int t)) cs \<and> (\<forall>c\<in>set cs. owner c \<noteq> None)"
  by (induction cs arbitrary: r) (auto simp: dict_get_def split: option.splits sum.splits if_splits)

lemma owned_by_total:
  "(\<forall>c\<in>set cs. owner c \<noteq> None) \<Longrightarrow> owned_by owner t cs = Inr (filter (\<lambda>c. owner c = Some (int t)) cs)"
  by (induction cs) (auto simp: dict_get_def split: option.splits sum.splits if_splits)

lemma owned_by_isl:
  "\<not> isl (owned_by owner t [0..<nc]) \<longleftrightarrow> (\<forall>c<nc. owner c \<noteq> None)"
proof
  assume "\<not> isl (owned_by owner t [0..<nc])"
  then obtain r where "owned_by owner t [0..<nc] = Inr r" by (cases "owned_by owner t [0..<nc]") auto
  from owned_by_Inr [OF this] show "\<forall>c<nc. owner c \<noteq> None" by simp
next
  assume "\<forall>c<nc. owner c \<noteq> None"
  then have "owned_by owner t [0..<nc] = Inr (filter (\<lambda>c. owner c = Some (int t)) [0..<nc])"
    by (intro owned_by_total) simp
  then show "\<not> isl (owned_by owner t [0..<nc])" by simp
qed

lemma owned_by_projr:
  "\<not> isl (owned_by owner t [0..<nc]) \<Longrightarrow> projr (owned_by owner t [0..<nc]) = owned owner nc t"
  by (cases "owned_by owner t [0..<nc]") (auto simp: owned_def dest: owned_by_Inr)

lemma build1_eq:
  "build1 teachers courses rooms slots =
     \<lparr>variables = variables12 (length courses) (length slots) (length rooms),
      constraints = constraints1 (length courses) (length slots) (length rooms),
      objective = None\<rparr>"
  by (simp add: build1_def declare_x_def Let_def case_prod_unfold fold_Add fold_NewBoolVar CpModel_def
       variables12_def constraints1_def)

lemma teacher_clash_isl:
  "\<not> isl (teacher_clash owner nc nr t s) \<longleftrightarrow> (\<forall>c<nc. owner c \<noteq> None)"
  using owned_by_isl [of owner t nc]
  by (cases "owned_by owner t [0..<nc]") (auto simp: teacher_clash_def)

lemma teacher_clash_projr:
  "\<not> isl (teacher_clash owner nc nr t s) \<Longrightarrow>
   projr (teacher_clash owner nc nr t s) =
     LinLe (LinSum [Xs c s r. c \<leftarrow> owned owner nc t, r \<leftarrow> [0..<nr]]) (IntConst 1)"
  using owned_by_projr [of owner t nc]
  by (cases "owned_by owner t [0..<nc]") (auto simp: teacher_clash_def)

lemma build2_Inr:
  assumes "build2 teachers courses rooms slots owner = Inr m"
  shows "m = model2 owner (length teachers) (length courses) (length slots) (length rooms)"
proof -
  let ?g = "\<lambda>k. teacher_clash owner (length courses) (length rooms) (fst k) (snd k)"
  let ?ks = "[(t, s). t \<leftarrow> [0..<length teachers], s \<leftarrow> [0..<length slots]]"
  from assms have *: "for_each ?ks (\<lambda>k. add_checked (?g k)) (build1 teachers courses rooms slots) = Inr m"
    by (simp add: build2_def build1_def Let_def case_prod_unfold)
  then have ok: "\<forall>k\<in>set ?ks. \<not> isl (?g k)"
    and m: "m = (build1 teachers courses rooms slots)\<lparr>constraints := constraints (build1 teachers courses rooms slots) @ map (\<lambda>k. projr (?g k)) ?ks\<rparr>"
    unfolding for_each_add_checked by blast+
  have "map (\<lambda>k. projr (?g k)) ?ks = teacher_family owner (length teachers) (length courses) (length slots) (length rooms)"
    unfolding teacher_family_def using ok
    by (intro map_cong refl) (simp add: case_prod_unfold teacher_clash_projr del: set_concat)
  with m show ?thesis by (simp add: build1_eq model2_def)
qed

lemma build2_total:
  assumes "\<forall>c<length courses. owner c \<noteq> None"
  shows "build2 teachers courses rooms slots owner =
    Inr (model2 owner (length teachers) (length courses) (length slots) (length rooms))"
proof -
  let ?g = "\<lambda>k. teacher_clash owner (length courses) (length rooms) (fst k) (snd k)"
  let ?ks = "[(t, s). t \<leftarrow> [0..<length teachers], s \<leftarrow> [0..<length slots]]"
  let ?m' = "(build1 teachers courses rooms slots)\<lparr>constraints := constraints (build1 teachers courses rooms slots) @ map (\<lambda>k. projr (?g k)) ?ks\<rparr>"
  have ok: "\<forall>k\<in>set ?ks. \<not> isl (?g k)"
    using assms by (simp add: teacher_clash_isl)
  then have "for_each ?ks (\<lambda>k. add_checked (?g k)) (build1 teachers courses rooms slots) = Inr ?m'"
    unfolding for_each_add_checked by blast
  then have "build2 teachers courses rooms slots owner = Inr ?m'"
    by (simp add: build2_def build1_def Let_def case_prod_unfold)
  then obtain m where m: "build2 teachers courses rooms slots owner = Inr m" by blast
  from build2_Inr [OF m] m show ?thesis by simp
qed

lemma week_vars_empty:
  "[Xd c d s r. d \<leftarrow> [0..<nd], s \<leftarrow> [0..<ns], r \<leftarrow> [0..<nr]] = [] \<longleftrightarrow>
     nd = 0 \<or> ns = 0 \<or> nr = 0"
  by (cases "nd = 0"; cases "ns = 0"; cases "nr = 0") auto

lemma frequency_isl:
  "\<not> isl (frequency course_freq nd ns nr c) \<longleftrightarrow>
     (\<exists>f. course_freq c = Some f \<and> (nd = 0 \<or> ns = 0 \<or> nr = 0 \<or> int64 f))"
  unfolding frequency_def Let_def week_vars_empty
  by (auto simp: dict_get_def split: option.splits)

lemma frequency_projr:
  "\<not> isl (frequency course_freq nd ns nr c) \<Longrightarrow>
   projr (frequency course_freq nd ns nr c) =
     LinEq (LinSum [Xd c d s r. d \<leftarrow> [0..<nd], s \<leftarrow> [0..<ns], r \<leftarrow> [0..<nr]])
       (IntConst (the (course_freq c)))"
  unfolding frequency_def Let_def
  by (auto simp: dict_get_def split: option.splits if_splits)

lemma prof_clash_isl:
  "\<not> isl (prof_clash owner nc nr p d s) \<longleftrightarrow> (\<forall>c<nc. owner c \<noteq> None)"
  using owned_by_isl [of owner p nc]
  by (cases "owned_by owner p [0..<nc]") (auto simp: prof_clash_def)

lemma prof_clash_projr:
  "\<not> isl (prof_clash owner nc nr p d s) \<Longrightarrow>
   projr (prof_clash owner nc nr p d s) =
     LinLe (LinSum [Xd c d s r. c \<leftarrow> owned owner nc p, r \<leftarrow> [0..<nr]]) (IntConst 1)"
  using owned_by_projr [of owner p nc]
  by (cases "owned_by owner p [0..<nc]") (auto simp: prof_clash_def)

lemma build3_iff:
  "build3 days ns rooms courses course_freq professors owner = Inr m \<longleftrightarrow>
     (\<forall>c<length courses. \<exists>f. course_freq c = Some f \<and>
        (length days = 0 \<or> ns = 0 \<or> length rooms = 0 \<or> int64 f)) \<and>
     (\<forall>k\<in>set [(p, d, s). p \<leftarrow> [0..<length professors], d \<leftarrow> [0..<length days], s \<leftarrow> [0..<ns]].
        \<forall>c<length courses. owner c \<noteq> None) \<and>
     m = model3 course_freq owner (length professors) (length courses) (length days) ns (length rooms)"
  (is "?L \<longleftrightarrow> ?F \<and> ?P \<and> ?M")
proof -
  let ?nc = "length courses" and ?nd = "length days" and ?nr = "length rooms"
  let ?m1 = "declare_xy ?nc ?nd ns ?nr CpModel"
  let ?fr = "\<lambda>c. frequency course_freq ?nd ns ?nr c"
  let ?m2 = "?m1\<lparr>constraints := constraints ?m1 @ map (\<lambda>c. projr (?fr c)) [0..<?nc]\<rparr>"
  let ?m4 = "fold (\<lambda>k. Add (room_clash_d ?nc (fst k) (fst (snd k)) (snd (snd k))))
               [(d, s, r). d \<leftarrow> [0..<?nd], s \<leftarrow> [0..<ns], r \<leftarrow> [0..<?nr]]
               (fold (\<lambda>k. Add (once_per_day ns ?nr (fst k) (snd k)))
                  [(c, d). c \<leftarrow> [0..<?nc], d \<leftarrow> [0..<?nd]] ?m2)"
  let ?pk = "[(p, d, s). p \<leftarrow> [0..<length professors], d \<leftarrow> [0..<?nd], s \<leftarrow> [0..<ns]]"
  let ?pc = "\<lambda>k. prof_clash owner ?nc ?nr (fst k) (fst (snd k)) (snd (snd k))"
  let ?m5 = "?m4\<lparr>constraints := constraints ?m4 @ map (\<lambda>k. projr (?pc k)) ?pk\<rparr>"
  let ?m7 = "Minimize (LinSum [Yd d s. d \<leftarrow> [0..<?nd], s \<leftarrow> [0..<ns]])
               (fold (\<lambda>k. Add (link_xy (int (?nc * ?nr)) ?nc ?nr (fst k) (snd k)))
                  [(d, s). d \<leftarrow> [0..<?nd], s \<leftarrow> [0..<ns]] ?m5)"
  have step1: "for_each [0..<?nc] (\<lambda>c. add_checked (?fr c)) ?m1 = Inr m2 \<longleftrightarrow> ?F \<and> m2 = ?m2" for m2
    unfolding for_each_add_checked by (auto simp add: frequency_isl)
  have step2: "for_each ?pk (\<lambda>k. add_checked (?pc k)) ?m4 = Inr m5 \<longleftrightarrow> ?P \<and> m5 = ?m5" for m5
    unfolding for_each_add_checked by (simp add: prof_clash_isl del: set_concat set_map set_upt)
  have unfold: "build3 days ns rooms courses course_freq professors owner =
     (case for_each [0..<?nc] (\<lambda>c. add_checked (?fr c)) ?m1 of
        Inl e \<Rightarrow> Inl e
      | Inr m2 \<Rightarrow>
         (case for_each ?pk (\<lambda>k. add_checked (?pc k))
             (fold (\<lambda>k. Add (room_clash_d ?nc (fst k) (fst (snd k)) (snd (snd k))))
               [(d, s, r). d \<leftarrow> [0..<?nd], s \<leftarrow> [0..<ns], r \<leftarrow> [0..<?nr]]
               (fold (\<lambda>k. Add (once_per_day ns ?nr (fst k) (snd k)))
                  [(c, d). c \<leftarrow> [0..<?nc], d \<leftarrow> [0..<?nd]] m2)) of
            Inl e \<Rightarrow> Inl e
          | Inr m5 \<Rightarrow> Inr (Minimize (LinSum [Yd d s. d \<leftarrow> [0..<?nd], s \<leftarrow> [0..<ns]])
               (fold (\<lambda>k. Add (link_xy (int (?nc * ?nr)) ?nc ?nr (fst k) (snd k)))
                  [(d, s). d \<leftarrow> [0..<?nd], s \<leftarrow> [0..<ns]] m5))))"
    by (simp add: build3_def Let_def case_prod_unfold cong: sum.case_cong)
  have m7: "?F \<Longrightarrow> ?P \<Longrightarrow> ?m7 = model3 course_freq owner (length professors) ?nc ?nd ns ?nr"
  proof -
    assume F: ?F and P: ?P
    have a: "map (\<lambda>c. projr (?fr c)) [0..<?nc] = frequency_family course_freq ?nc ?nd ns ?nr"
      unfolding frequency_family_def using F
      by (intro map_cong refl) (simp add: frequency_projr frequency_isl)
    have b: "map (\<lambda>k. projr (?pc k)) ?pk = prof_family owner (length professors) ?nc ?nd ns ?nr"
      unfolding prof_family_def
    proof (intro map_cong refl)
      fix k assume "k \<in> set ?pk"
      with P have "\<forall>c<?nc. owner c \<noteq> None" by blast
      then have "\<not> isl (?pc k)" by (simp add: prof_clash_isl)
      from prof_clash_projr [OF this]
      show "projr (?pc k) = (case k of (p, d, s) \<Rightarrow>
              LinLe (LinSum [Xd c d s r. c \<leftarrow> owned owner ?nc p, r \<leftarrow> [0..<?nr]]) (IntConst 1))"
        by (simp add: case_prod_unfold)
    qed
    show ?thesis
      unfolding a b
      by (simp add: model3_def variables3_def day_family_def room_family_def link_family_def
          declare_xy_def Let_def case_prod_unfold fold_Add fold_NewBoolVar CpModel_def Minimize_def)
  qed
  show ?thesis
  proof
    assume L: ?L
    from L obtain m2 where m2: "for_each [0..<?nc] (\<lambda>c. add_checked (?fr c)) ?m1 = Inr m2"
      unfolding unfold by (auto split: sum.splits)
    then have F: ?F and m2eq: "m2 = ?m2" using step1 by blast+
    from L m2 obtain m5 where m5: "for_each ?pk (\<lambda>k. add_checked (?pc k)) ?m4 = Inr m5"
      and m: "m = Minimize (LinSum [Yd d s. d \<leftarrow> [0..<?nd], s \<leftarrow> [0..<ns]])
               (fold (\<lambda>k. Add (link_xy (int (?nc * ?nr)) ?nc ?nr (fst k) (snd k)))
                  [(d, s). d \<leftarrow> [0..<?nd], s \<leftarrow> [0..<ns]] m5)"
      unfolding unfold m2eq by (auto split: sum.splits)
    from m5 have P: ?P and m5eq: "m5 = ?m5" using step2 by blast+
    from m m5eq m7 [OF F P] show "?F \<and> ?P \<and> ?M" using F P by simp
  next
    assume R: "?F \<and> ?P \<and> ?M"
    then have F: ?F and P: ?P and M: ?M by blast+
    have 1: "for_each [0..<?nc] (\<lambda>c. add_checked (?fr c)) ?m1 = Inr ?m2" using step1 F by blast
    have 2: "for_each ?pk (\<lambda>k. add_checked (?pc k)) ?m4 = Inr ?m5" using step2 P by blast
    show ?L unfolding unfold 1 using 2 m7 [OF F P] M by simp
  qed
qed

lemma satisfies_holds: "satisfies a m \<Longrightarrow> ct \<in> set (constraints m) \<Longrightarrow> holds a ct"
  by (simp add: satisfies_def list_all_iff)

lemma satisfies_binary: "satisfies a m \<Longrightarrow> v \<in> declared m \<Longrightarrow> a v = 0 \<or> a v = 1"
  by (auto simp: satisfies_def list_all_iff declared_def)

lemma sum_placed:
  "(\<forall>v\<in>set vs. a v = 0 \<or> a v = 1) \<Longrightarrow> sum_list (map a vs) = int (length (placed a vs))"
  by (induction vs) (auto simp: placed_def)

lemma forced_count:
  assumes "satisfies a m" and "LinEq (LinSum vs) (IntConst k) \<in> set (constraints m)"
    and "set vs \<subseteq> declared m"
  shows "int (length (placed a vs)) = k"
proof -
  have "\<forall>v\<in>set vs. a v = 0 \<or> a v = 1" using assms(1,3) satisfies_binary by blast
  from sum_placed [OF this] satisfies_holds [OF assms(1,2)] show ?thesis by simp
qed

lemma bounded_count:
  assumes "satisfies a m" and "LinLe (LinSum vs) (IntConst k) \<in> set (constraints m)"
    and "set vs \<subseteq> declared m"
  shows "int (length (placed a vs)) \<le> k"
proof -
  have "\<forall>v\<in>set vs. a v = 0 \<or> a v = 1" using assms(1,3) satisfies_binary by blast
  from sum_placed [OF this] satisfies_holds [OF assms(1,2)] show ?thesis by simp
qed

lemma declared12:
  "declared \<lparr>variables = variables12 nc ns nr, constraints = cts, objective = ob\<rparr> =
     {Xs c s r | c s r. c < nc \<and> s < ns \<and> r < nr}"
  by (auto simp: declared_def variables12_def image_iff)

lemma declared3:
  "declared (model3 course_freq owner np nc nd ns nr) =
     {Xd c d s r | c d s r. c < nc \<and> d < nd \<and> s < ns \<and> r < nr} \<union> {Yd d s | d s. d < nd \<and> s < ns}"
  by (auto simp: declared_def model3_def variables3_def image_iff) force+

lemma pair_key: "x < n \<Longrightarrow> y < m \<Longrightarrow> (x, y) \<in> set [(x, y). x \<leftarrow> [0..<n], y \<leftarrow> [0..<m]]"
  by force

lemma triple_key:
  "x < n \<Longrightarrow> y < m \<Longrightarrow> z < l \<Longrightarrow>
   (x, y, z) \<in> set [(x, y, z). x \<leftarrow> [0..<n], y \<leftarrow> [0..<m], z \<leftarrow> [0..<l]]"
  by force

lemma build1_constraints:
  "set (constraints (build1 teachers courses rooms slots)) =
     set (constraints1 (length courses) (length slots) (length rooms))"
  by (simp add: build1_eq)

lemma build1_declared:
  "declared (build1 teachers courses rooms slots) =
     {Xs c s r | c s r. c < length courses \<and> s < length slots \<and> r < length rooms}"
  unfolding build1_eq by (rule declared12)

lemma build2_constraints:
  "build2 teachers courses rooms slots owner = Inr m \<Longrightarrow>
   set (constraints m) = set (constraints1 (length courses) (length slots) (length rooms)) \<union>
     set (teacher_family owner (length teachers) (length courses) (length slots) (length rooms))"
  by (drule build2_Inr) (simp add: model2_def)

lemma build2_declared:
  "build2 teachers courses rooms slots owner = Inr m \<Longrightarrow>
   declared m = {Xs c s r | c s r. c < length courses \<and> s < length slots \<and> r < length rooms}"
  by (drule build2_Inr) (simp only: model2_def declared12)

lemma mem_family: "k \<in> set ks \<Longrightarrow> ct = f k \<Longrightarrow> ct \<in> set (map f ks)"
  by auto

lemma exactly_once_mem:
  "c < nc \<Longrightarrow> LinEq (LinSum [Xs c s r. s \<leftarrow> [0..<ns], r \<leftarrow> [0..<nr]]) (IntConst 1)
     \<in> set (constraints1 nc ns nr)"
  unfolding constraints1_def set_append
  by (rule UnI1, rule mem_family [where k = c]) (simp_all add: exactly_once_def)

lemma room_clash_mem:
  "s < ns \<Longrightarrow> r < nr \<Longrightarrow> LinLe (LinSum [Xs c s r. c \<leftarrow> [0..<nc]]) (IntConst 1)
     \<in> set (constraints1 nc ns nr)"
  unfolding constraints1_def set_append
  by (rule UnI2, rule mem_family [where k = "(s, r)"]) (simp_all add: room_clash_def pair_key del: set_concat)

lemma teacher_family_mem:
  "t < nt \<Longrightarrow> s < ns \<Longrightarrow>
   LinLe (LinSum [Xs c s r. c \<leftarrow> owned owner nc t, r \<leftarrow> [0..<nr]]) (IntConst 1)
     \<in> set (teacher_family owner nt nc ns nr)"
  unfolding teacher_family_def
  by (rule mem_family [where k = "(t, s)"]) (simp_all add: pair_key del: set_concat)

lemma frequency_family_mem:
  "c < nc \<Longrightarrow> course_freq c = Some f \<Longrightarrow>
   LinEq (LinSum [Xd c d s r. d \<leftarrow> [0..<nd], s \<leftarrow> [0..<ns], r \<leftarrow> [0..<nr]]) (IntConst f)
     \<in> set (frequency_family course_freq nc nd ns nr)"
  unfolding frequency_family_def
  by (rule mem_family [where k = c]) simp_all

lemma day_family_mem:
  "c < nc \<Longrightarrow> d < nd \<Longrightarrow>
   LinLe (LinSum [Xd c d s r. s \<leftarrow> [0..<ns], r \<leftarrow> [0..<nr]]) (IntConst 1)
     \<in> set (day_family nc nd ns nr)"
  unfolding day_family_def
  by (rule mem_family [where k = "(c, d)"]) (simp_all add: once_per_day_def pair_key del: set_concat)

lemma room_family_mem:
  "d < nd \<Longrightarrow> s < ns \<Longrightarrow> r < nr \<Longrightarrow>
   LinLe (LinSum [Xd c d s r. c \<leftarrow> [0..<nc]]) (IntConst 1) \<in> set (room_family nc nd ns nr)"
  unfolding room_family_def
  by (rule mem_family [where k = "(d, s, r)"]) (simp_all add: room_clash_d_def triple_key del: set_concat)

lemma prof_family_mem:
  "p < np \<Longrightarrow> d < nd \<Longrightarrow> s < ns \<Longrightarrow>
   LinLe (LinSum [Xd c d s r. c \<leftarrow> owned owner nc p, r \<leftarrow> [0..<nr]]) (IntConst 1)
     \<in> set (prof_family owner np nc nd ns nr)"
  unfolding prof_family_def
  by (rule mem_family [where k = "(p, d, s)"]) (simp_all add: triple_key del: set_concat)

lemma link_family_mem:
  "d < nd \<Longrightarrow> s < ns \<Longrightarrow>
   LinLe (LinSum [Xd c d s r. c \<leftarrow> [0..<nc], r \<leftarrow> [0..<nr]]) (Scaled (int (nc * nr)) (Yd d s))
     \<in> set (link_family nc nd ns nr)"
  unfolding link_family_def
  by (rule mem_family [where k = "(d, s)"]) (simp_all add: link_xy_def pair_key del: set_concat)

lemma constraints_model3:
  "set (constraints (model3 course_freq owner np nc nd ns nr)) =
     set (frequency_family course_freq nc nd ns nr) \<union> set (day_family nc nd ns nr) \<union>
     set (room_family nc nd ns nr) \<union> set (prof_family owner np nc nd ns nr) \<union>
     set (link_family nc nd ns nr)"
  by (simp add: model3_def Un_assoc)

lemma frequency1:
  assumes "c < length courses"
  shows "LinEq (LinSum [Xs c s r. s \<leftarrow> [0..<length slots], r \<leftarrow> [0..<length rooms]]) (IntConst 1)
           \<in> set (constraints (build1 teachers courses rooms slots))"
    and "satisfies a (build1 teachers courses rooms slots) \<Longrightarrow>
           length (placed a [Xs c s r. s \<leftarrow> [0..<length slots], r \<leftarrow> [0..<length rooms]]) = 1"
proof -
  let ?m = "build1 teachers courses rooms slots"
  let ?vs = "[Xs c s r. s \<leftarrow> [0..<length slots], r \<leftarrow> [0..<length rooms]]"
  show mem: "LinEq (LinSum ?vs) (IntConst 1) \<in> set (constraints ?m)"
    using assms unfolding build1_constraints by (blast intro: exactly_once_mem)
  have sub: "set ?vs \<subseteq> declared ?m"
    using assms unfolding build1_declared by auto
  assume "satisfies a ?m"
  from forced_count [OF this mem sub] show "length (placed a ?vs) = 1" by simp
qed

lemma frequency2:
  assumes "build2 teachers courses rooms slots owner = Inr m" and "c < length courses"
  shows "LinEq (LinSum [Xs c s r. s \<leftarrow> [0..<length slots], r \<leftarrow> [0..<length rooms]]) (IntConst 1)
           \<in> set (constraints m)"
    and "satisfies a m \<Longrightarrow>
           length (placed a [Xs c s r. s \<leftarrow> [0..<length slots], r \<leftarrow> [0..<length rooms]]) = 1"
proof -
  let ?vs = "[Xs c s r. s \<leftarrow> [0..<length slots], r \<leftarrow> [0..<length rooms]]"
  show mem: "LinEq (LinSum ?vs) (IntConst 1) \<in> set (constraints m)"
    using assms(2) unfolding build2_constraints [OF assms(1)] by (blast intro: exactly_once_mem)
  have sub: "set ?vs \<subseteq> declared m"
    using assms(2) unfolding build2_declared [OF assms(1)] by auto
  assume "satisfies a m"
  from forced_count [OF this mem sub] show "length (placed a ?vs) = 1" by simp
qed

lemma frequency3:
  assumes "build3 days ns rooms courses course_freq professors owner = Inr m"
    and "c < length courses"
  shows "\<exists>f. course_freq c = Some f \<and>
           LinEq (LinSum [Xd c d s r. d \<leftarrow> [0..<length days], s \<leftarrow> [0..<ns], r \<leftarrow> [0..<length rooms]])
             (IntConst f) \<in> set (constraints m) \<and>
           (satisfies a m \<longrightarrow>
              int (length (placed a [Xd c d s r. d \<leftarrow> [0..<length days], s \<leftarrow> [0..<ns],
                                       r \<leftarrow> [0..<length rooms]])) = f)"
proof -
  let ?vs = "[Xd c d s r. d \<leftarrow> [0..<length days], s \<leftarrow> [0..<ns], r \<leftarrow> [0..<length rooms]]"
  from assms(1) have m: "m = model3 course_freq owner (length professors) (length courses) (length days) ns (length rooms)"
    and cf: "\<forall>c<length courses. \<exists>f. course_freq c = Some f \<and>
        (length days = 0 \<or> ns = 0 \<or> length rooms = 0 \<or> int64 f)"
    unfolding build3_iff by blast+
  from cf assms(2) obtain f where f: "course_freq c = Some f" by blast
  have mem: "LinEq (LinSum ?vs) (IntConst f) \<in> set (constraints m)"
    using assms(2) f unfolding m constraints_model3 by (blast intro: frequency_family_mem)
  have sub: "set ?vs \<subseteq> declared m"
    using assms(2) unfolding m declared3 by auto
  have "satisfies a m \<longrightarrow> int (length (placed a ?vs)) = f"
    using forced_count [OF _ mem sub] by blast
  with f mem show ?thesis by blast
qed

lemma at_most_one:
  assumes "satisfies a m" and "LinLe (LinSum vs) (IntConst 1) \<in> set (constraints m)"
    and "set vs \<subseteq> declared m"
  shows "length (placed a vs) \<le> 1"
  using bounded_count [OF assms] by simp

lemma owned_less: "c \<in> set (owned owner nc t) \<Longrightarrow> c < nc"
  by (simp add: owned_def)

lemma room1:
  assumes "s < length slots" and "r < length rooms"
  shows "LinLe (LinSum [Xs c s r. c \<leftarrow> [0..<length courses]]) (IntConst 1)
           \<in> set (constraints (build1 teachers courses rooms slots)) \<and>
         (satisfies a (build1 teachers courses rooms slots) \<longrightarrow>
            length (placed a [Xs c s r. c \<leftarrow> [0..<length courses]]) \<le> 1)"
proof -
  let ?m = "build1 teachers courses rooms slots"
  let ?vs = "[Xs c s r. c \<leftarrow> [0..<length courses]]"
  have mem: "LinLe (LinSum ?vs) (IntConst 1) \<in> set (constraints ?m)"
    using assms unfolding build1_constraints by (blast intro: room_clash_mem)
  have sub: "set ?vs \<subseteq> declared ?m"
    using assms unfolding build1_declared by auto
  from mem at_most_one [OF _ mem sub] show ?thesis by blast
qed

lemma room2:
  assumes "build2 teachers courses rooms slots owner = Inr m"
    and "s < length slots" and "r < length rooms"
  shows "LinLe (LinSum [Xs c s r. c \<leftarrow> [0..<length courses]]) (IntConst 1) \<in> set (constraints m) \<and>
         (satisfies a m \<longrightarrow> length (placed a [Xs c s r. c \<leftarrow> [0..<length courses]]) \<le> 1)"
proof -
  let ?vs = "[Xs c s r. c \<leftarrow> [0..<length courses]]"
  have mem: "LinLe (LinSum ?vs) (IntConst 1) \<in> set (constraints m)"
    using assms(2,3) unfolding build2_constraints [OF assms(1)] by (blast intro: room_clash_mem)
  have sub: "set ?vs \<subseteq> declared m"
    using assms(2,3) unfolding build2_declared [OF assms(1)] by auto
  from mem at_most_one [OF _ mem sub] show ?thesis by blast
qed

lemma build3_model:
  "build3 days ns rooms courses course_freq professors owner = Inr m \<Longrightarrow>
   m = model3 course_freq owner (length professors) (length courses) (length days) ns (length rooms)"
  unfolding build3_iff by blast

lemma room3:
  assumes "build3 days ns rooms courses course_freq professors owner = Inr m"
    and "d < length days" and "s < ns" and "r < length rooms"
  shows "LinLe (LinSum [Xd c d s r. c \<leftarrow> [0..<length courses]]) (IntConst 1) \<in> set (constraints m) \<and>
         (satisfies a m \<longrightarrow> length (placed a [Xd c d s r. c \<leftarrow> [0..<length courses]]) \<le> 1)"
proof -
  let ?vs = "[Xd c d s r. c \<leftarrow> [0..<length courses]]"
  note m = build3_model [OF assms(1)]
  have mem: "LinLe (LinSum ?vs) (IntConst 1) \<in> set (constraints m)"
    using assms(2-) unfolding m constraints_model3 by (blast intro: room_family_mem)
  have sub: "set ?vs \<subseteq> declared m"
    using assms(2-) unfolding m declared3 by auto
  from mem at_most_one [OF _ mem sub] show ?thesis by blast
qed

lemma day3:
  assumes "build3 days ns rooms courses course_freq professors owner = Inr m"
    and "c < length courses" and "d < length days"
  shows "LinLe (LinSum [Xd c d s r. s \<leftarrow> [0..<ns], r \<leftarrow> [0..<length rooms]]) (IntConst 1)
           \<in> set (constraints m) \<and>
         (satisfies a m \<longrightarrow>
            length (placed a [Xd c d s r. s \<leftarrow> [0..<ns], r \<leftarrow> [0..<length rooms]]) \<le> 1)"
proof -
  let ?vs = "[Xd c d s r. s \<leftarrow> [0..<ns], r \<leftarrow> [0..<length rooms]]"
  note m = build3_model [OF assms(1)]
  have mem: "LinLe (LinSum ?vs) (IntConst 1) \<in> set (constraints m)"
    using assms(2-) unfolding m constraints_model3 by (blast intro: day_family_mem)
  have sub: "set ?vs \<subseteq> declared m"
    using assms(2-) unfolding m declared3 by auto
  from mem at_most_one [OF _ mem sub] show ?thesis by blast
qed

lemma teacher2:
  assumes "build2 teachers courses rooms slots owner = Inr m"
    and "t < length teachers" and "s < length slots"
  shows "LinLe (LinSum [Xs c s r. c \<leftarrow> owned owner (length courses) t, r \<leftarrow> [0..<length rooms]])
           (IntConst 1) \<in> set (constraints m) \<and>
         (satisfies a m \<longrightarrow>
            length (placed a [Xs c s r. c \<leftarrow> owned owner (length courses) t,
                                r \<leftarrow> [0..<length rooms]]) \<le> 1)"
proof -
  let ?vs = "[Xs c s r. c \<leftarrow> owned owner (length courses) t, r \<leftarrow> [0..<length rooms]]"
  have mem: "LinLe (LinSum ?vs) (IntConst 1) \<in> set (constraints m)"
    using assms(2,3) unfolding build2_constraints [OF assms(1)] by (blast intro: teacher_family_mem)
  have sub: "set ?vs \<subseteq> declared m"
    using assms(2,3) unfolding build2_declared [OF assms(1)] by (auto dest: owned_less)
  from mem at_most_one [OF _ mem sub] show ?thesis by blast
qed

lemma prof3:
  assumes "build3 days ns rooms courses course_freq professors owner = Inr m"
    and "p < length professors" and "d < length days" and "s < ns"
  shows "LinLe (LinSum [Xd c d s r. c \<leftarrow> owned owner (length courses) p, r \<leftarrow> [0..<length rooms]])
           (IntConst 1) \<in> set (constraints m) \<and>
         (satisfies a m \<longrightarrow>
            length (placed a [Xd c d s r. c \<leftarrow> owned owner (length courses) p,
                                r \<leftarrow> [0..<length rooms]]) \<le> 1)"
proof -
  let ?vs = "[Xd c d s r. c \<leftarrow> owned owner (length courses) p, r \<leftarrow> [0..<length rooms]]"
  note m = build3_model [OF assms(1)]
  have mem: "LinLe (LinSum ?vs) (IntConst 1) \<in> set (constraints m)"
    using assms(2-) unfolding m constraints_model3 by (blast intro: prof_family_mem)
  have sub: "set ?vs \<subseteq> declared m"
    using assms(2-) unfolding m declared3 by (auto dest: owned_less)
  from mem at_most_one [OF _ mem sub] show ?thesis by blast
qed

lemma link3_mem:
  assumes "build3 days ns rooms courses course_freq professors owner = Inr m"
    and "d < length days" and "s < ns"
  shows "LinLe (LinSum [Xd c d s r. c \<leftarrow> [0..<length courses], r \<leftarrow> [0..<length rooms]])
           (Scaled (int (length courses * length rooms)) (Yd d s)) \<in> set (constraints m)"
  using assms(2-) unfolding build3_model [OF assms(1)] constraints_model3
  by (blast intro: link_family_mem)

lemma link3_forces:
  assumes "build3 days ns rooms courses course_freq professors owner = Inr m"
    and "d < length days" and "s < ns" and "c < length courses" and "r < length rooms"
    and "satisfies a m" and "a (Xd c d s r) = 1"
  shows "a (Yd d s) = 1"
proof -
  let ?vs = "[Xd c d s r. c \<leftarrow> [0..<length courses], r \<leftarrow> [0..<length rooms]]"
  note m = build3_model [OF assms(1)]
  have sub: "set ?vs \<subseteq> declared m"
    using assms(2,3) unfolding m declared3 by auto
  then have "\<forall>v\<in>set ?vs. a v = 0 \<or> a v = 1"
    using satisfies_binary [OF assms(6)] by blast
  then have sum: "sum_list (map a ?vs) = int (length (placed a ?vs))" by (rule sum_placed)
  have "Xd c d s r \<in> set (placed a ?vs)"
    using assms(4,5,7) by (force simp: placed_def)
  then have "0 < length (placed a ?vs)" by (cases "placed a ?vs") auto
  with sum have pos: "0 < sum_list (map a ?vs)" by simp
  have "holds a (LinLe (LinSum ?vs) (Scaled (int (length courses * length rooms)) (Yd d s)))"
    using satisfies_holds [OF assms(6) link3_mem [OF assms(1,2,3)]] .
  with pos have *: "0 < int (length courses * length rooms) * a (Yd d s)" by simp
  have "Yd d s \<in> declared m" using assms(2,3) unfolding m declared3 by auto
  then have "a (Yd d s) = 0 \<or> a (Yd d s) = 1" using satisfies_binary [OF assms(6)] by blast
  with * show ?thesis by auto
qed

section \<open>The two-course instance\<close>

lemma demo_satisfies1: "satisfies demo_values (build1 teachers1 courses1 rooms1 slots1)"
  by code_simp

lemma demo_build2:
  "build2 teachers1 courses1 rooms1 slots1 demo_owner = Inr (model2 demo_owner 2 2 2 2)"
  by code_simp

lemma demo_satisfies2: "satisfies demo_values (model2 demo_owner 2 2 2 2)"
  by code_simp

lemma demo_build3:
  "build3 demo_days 2 rooms1 courses1 demo_freq teachers1 demo_owner =
     Inr (model3 demo_freq demo_owner 2 2 2 2 2)"
  by code_simp

lemma demo_satisfies3: "satisfies demo_values (model3 demo_freq demo_owner 2 2 2 2 2)"
  by code_simp

lemma demo_lengths:
  "length teachers1 = 2" "length courses1 = 2" "length rooms1 = 2" "length slots1 = 2"
  "length demo_days = 2"
  by (simp_all add: teachers1_def courses1_def rooms1_def slots1_def demo_days_def)

section \<open>The draws, and what the printing loops print\<close>

lemma draw_loop:
  "for_each ks
     (\<lambda>c d. case randint rnd c 0 hi of Inl e \<Rightarrow> Inl e | Inr t \<Rightarrow> Inr (d(c \<mapsto> t))) d0 =
   (if hi < 0 \<and> ks \<noteq> [] then Inl ValueError
    else Inr (\<lambda>c. if c \<in> set ks then Some (rnd c 0 hi) else d0 c))"
proof (induction ks arbitrary: d0)
  case Nil
  show ?case by simp
next
  case (Cons k ks)
  show ?case
  proof (cases "hi < 0")
    case True
    then show ?thesis by (simp add: randint_def)
  next
    case False
    have "(\<lambda>c. if c \<in> set ks then Some (rnd c 0 hi) else (d0(k \<mapsto> rnd k 0 hi)) c) =
          (\<lambda>c. if c \<in> set (k # ks) then Some (rnd c 0 hi) else d0 c)"
      by (rule ext) simp
    moreover have "for_each (k # ks)
        (\<lambda>c d. case randint rnd c 0 hi of Inl e \<Rightarrow> Inl e | Inr t \<Rightarrow> Inr (d(c \<mapsto> t))) d0 =
      for_each ks
        (\<lambda>c d. case randint rnd c 0 hi of Inl e \<Rightarrow> Inl e | Inr t \<Rightarrow> Inr (d(c \<mapsto> t)))
        (d0(k \<mapsto> rnd k 0 hi))"
      using False by (simp add: randint_def)
    ultimately show ?thesis
      unfolding Cons.IH using False by simp
  qed
qed

lemma draw_course_teacher_eq:
  "draw_course_teacher teachers courses rnd =
     (if teachers = [] \<and> courses \<noteq> [] then Inl ValueError
      else Inr (drawn (length courses) (\<lambda>c. rnd c 0 (int (length teachers) - 1))))"
proof -
  have "(\<lambda>c. if c \<in> set [0..<length courses] then Some (rnd c 0 (int (length teachers) - 1))
              else Map.empty c) =
        drawn (length courses) (\<lambda>c. rnd c 0 (int (length teachers) - 1))"
    by (rule ext) (simp add: drawn_def)
  then show ?thesis
    unfolding draw_course_teacher_def draw_loop by auto
qed

lemma list_get_valid:
  "0 \<le> t \<Longrightarrow> t < int (length xs) \<Longrightarrow> list_get xs t = Inr (xs ! nat t)"
  by (simp add: list_get_def)

lemma construct2_eq:
  assumes "teachers \<noteq> [] \<or> courses = []"
  shows "construct2 teachers courses rooms slots rnd =
     Inr (drawn (length courses) (\<lambda>c. rnd c 0 (int (length teachers) - 1)),
          model2 (drawn (length courses) (\<lambda>c. rnd c 0 (int (length teachers) - 1)))
            (length teachers) (length courses) (length slots) (length rooms))"
proof -
  have "\<forall>c<length courses.
      drawn (length courses) (\<lambda>c. rnd c 0 (int (length teachers) - 1)) c \<noteq> None"
    by (simp add: drawn_def)
  from build2_total [OF this] assms show ?thesis
    by (auto simp: construct2_def draw_course_teacher_eq)
qed

lemma promise_draws:
  assumes "randint_promise rnd" and "teachers \<noteq> []"
  shows "randint_result 0 (int (length teachers) - 1) (rnd c 0 (int (length teachers) - 1))"
proof -
  from assms(2) have "(0::int) \<le> int (length teachers) - 1" by (cases teachers) auto
  with assms(1) show ?thesis unfolding randint_promise_def by blast
qed

lemma construct2_models:
  assumes v1: "\<forall>c<length courses. randint_result 0 (int (length teachers) - 1)
                 (rnd1 c 0 (int (length teachers) - 1))"
    and v2: "\<forall>c<length courses. randint_result 0 (int (length teachers) - 1)
                 (rnd2 c 0 (int (length teachers) - 1))"
    and ne: "slots \<noteq> []" "rooms \<noteq> []"
  shows "map_sum id snd (construct2 teachers courses rooms slots rnd1) =
         map_sum id snd (construct2 teachers courses rooms slots rnd2) \<longleftrightarrow>
         (\<forall>c<length courses. rnd1 c 0 (int (length teachers) - 1) =
                              rnd2 c 0 (int (length teachers) - 1))"
proof -
  let ?nc = "length courses" and ?nt = "length teachers"
  let ?ns = "length slots" and ?nr = "length rooms"
  let ?r1 = "\<lambda>c. rnd1 c 0 (int ?nt - 1)" and ?r2 = "\<lambda>c. rnd2 c 0 (int ?nt - 1)"
  have t: "teachers \<noteq> [] \<or> courses = []"
  proof (cases courses)
    case Nil then show ?thesis by simp
  next
    case (Cons x xs)
    with v1 have "randint_result 0 (int ?nt - 1) (?r1 0)" by auto
    then show ?thesis by (auto simp: randint_result_def)
  qed
  note c1 = construct2_eq [OF t, of rooms slots rnd1]
  note c2 = construct2_eq [OF t, of rooms slots rnd2]
  show ?thesis
  proof
    assume "\<forall>c<?nc. ?r1 c = ?r2 c"
    then have "drawn ?nc ?r1 = drawn ?nc ?r2" by (intro ext) (simp add: drawn_def)
    then show "map_sum id snd (construct2 teachers courses rooms slots rnd1) =
         map_sum id snd (construct2 teachers courses rooms slots rnd2)"
      by (simp add: c1 c2)
  next
    assume "map_sum id snd (construct2 teachers courses rooms slots rnd1) =
         map_sum id snd (construct2 teachers courses rooms slots rnd2)"
    then have "model2 (drawn ?nc ?r1) ?nt ?nc ?ns ?nr = model2 (drawn ?nc ?r2) ?nt ?nc ?ns ?nr"
      by (simp add: c1 c2)
    then have tf: "teacher_family (drawn ?nc ?r1) ?nt ?nc ?ns ?nr =
                   teacher_family (drawn ?nc ?r2) ?nt ?nc ?ns ?nr"
      by (simp add: model2_def)
    show "\<forall>c<?nc. ?r1 c = ?r2 c"
    proof (intro allI impI)
      fix c assume c: "c < ?nc"
      from v1 c have r: "0 \<le> ?r1 c" "?r1 c \<le> int ?nt - 1" by (auto simp: randint_result_def)
      define t where "t = nat (?r1 c)"
      from r have tlt: "t < ?nt" and tint: "int t = ?r1 c" by (auto simp: t_def)
      from ne have s0: "0 < ?ns" and r0: "0 < ?nr" by auto
      have key: "(t, 0) \<in> set [(t, s). t \<leftarrow> [0..<?nt], s \<leftarrow> [0..<?ns]]"
        using pair_key [OF tlt s0] .
      from tf have "\<forall>k\<in>set [(t, s). t \<leftarrow> [0..<?nt], s \<leftarrow> [0..<?ns]].
          (case k of (t, s) \<Rightarrow> LinLe (LinSum [Xs c s r. c \<leftarrow> owned (drawn ?nc ?r1) ?nc t, r \<leftarrow> [0..<?nr]]) (IntConst 1)) =
          (case k of (t, s) \<Rightarrow> LinLe (LinSum [Xs c s r. c \<leftarrow> owned (drawn ?nc ?r2) ?nc t, r \<leftarrow> [0..<?nr]]) (IntConst 1))"
        unfolding teacher_family_def map_eq_conv .
      from bspec [OF this key]
      have eq: "[Xs c 0 r. c \<leftarrow> owned (drawn ?nc ?r1) ?nc t, r \<leftarrow> [0..<?nr]] =
                [Xs c 0 r. c \<leftarrow> owned (drawn ?nc ?r2) ?nc t, r \<leftarrow> [0..<?nr]]"
        by simp
      have "c \<in> set (owned (drawn ?nc ?r1) ?nc t)"
        using c tint by (simp add: owned_def drawn_def)
      with r0 have "Xs c 0 0 \<in> set [Xs c 0 r. c \<leftarrow> owned (drawn ?nc ?r1) ?nc t, r \<leftarrow> [0..<?nr]]"
        by force
      then have "Xs c 0 0 \<in> set [Xs c 0 r. c \<leftarrow> owned (drawn ?nc ?r2) ?nc t, r \<leftarrow> [0..<?nr]]"
        unfolding eq .
      then have "c \<in> set (owned (drawn ?nc ?r2) ?nc t)" by auto
      then have "?r2 c = int t" by (auto simp: owned_def drawn_def split: if_splits)
      with tint show "?r1 c = ?r2 c" by simp
    qed
  qed
qed

lemma lengths2:
  "length teachers2 = 10" "length courses2 = 20" "length rooms2 = 5" "length slots2 = 8"
  by (simp_all add: teachers2_def courses2_def rooms2_def slots2_def)

lemma report1_loop:
  "fold (\<lambda>(c, s, r) st. let (v, st') = Value a (Xs c s r) st
                          in if v = 1 then print (line c s r) st' else st') ks st =
   st\<lparr>value_reads := value_reads st @ map (\<lambda>(c, s, r). Xs c s r) ks,
      printed := printed st @
        map (\<lambda>(c, s, r). line c s r) (filter (\<lambda>(c, s, r). a (Xs c s r) = 1) ks)\<rparr>"
  by (induction ks arbitrary: st) (auto simp: Value_def print_def)

lemma report2_loop:
  assumes "\<forall>(c, s, r)\<in>set ks. teacher_of teachers owner c = Inr (tn c)"
  shows "for_each ks
     (\<lambda>(c, s, r) st. let (v, st') = Value a (Xs c s r) st
                      in if v = 1 then
                           (case teacher_of teachers owner c of
                              Inl e \<Rightarrow> Inl e
                            | Inr teacher \<Rightarrow> Inr (print (line teacher c s r) st'))
                         else Inr st') st =
   Inr (st\<lparr>value_reads := value_reads st @ map (\<lambda>(c, s, r). Xs c s r) ks,
      printed := printed st @
        map (\<lambda>(c, s, r). line (tn c) c s r) (filter (\<lambda>(c, s, r). a (Xs c s r) = 1) ks)\<rparr>)"
  using assms by (induction ks arbitrary: st) (auto simp: Value_def print_def)

lemma for_each_total:
  "(\<forall>k\<in>set ks. \<forall>st. \<not> isl (body k st)) \<Longrightarrow> \<not> isl (for_each ks body st)"
proof (induction ks arbitrary: st)
  case Nil
  show ?case by simp
next
  case (Cons k ks)
  from Cons.prems have "\<not> isl (body k st)" by simp
  then obtain st' where "body k st = Inr st'" by (cases "body k st") auto
  with Cons show ?case by simp
qed

lemma first_course_total:
  "(\<forall>c\<in>set cs. \<not> isl (teacher_of professors owner c)) \<Longrightarrow>
   \<not> isl (first_course rooms courses professors owner a d s r cs st)"
proof (induction cs arbitrary: st)
  case Nil
  show ?case by simp
next
  case (Cons c cs)
  from Cons.prems obtain prof where "teacher_of professors owner c = Inr prof"
    by (cases "teacher_of professors owner c") auto
  with Cons show ?case by (simp add: Value_def)
qed

lemma slot_row_total:
  assumes "\<forall>c<length courses. \<not> isl (teacher_of professors owner c)"
  shows "\<not> isl (slot_row rooms courses professors owner a d s st)"
proof -
  let ?body = "\<lambda>r (row, st).
                case first_course rooms courses professors owner a d s r [0..<length courses] st of
                  Inl e \<Rightarrow> Inl e
                | Inr (Some cell, st') \<Rightarrow> Inr (row @ [cell], st')
                | Inr (None, st') \<Rightarrow> Inr (row @ [rooms ! r @ '': -''], st')"
  have body: "\<not> isl (?body r rst)" for r rst
  proof -
    obtain row st where rst: "rst = (row, st)" by (cases rst)
    have "\<not> isl (first_course rooms courses professors owner a d s r [0..<length courses] st)"
      using assms by (intro first_course_total) simp
    then obtain cell st' where
      "first_course rooms courses professors owner a d s r [0..<length courses] st = Inr (cell, st')"
      by (cases "first_course rooms courses professors owner a d s r [0..<length courses] st") auto
    then show ?thesis unfolding rst by (cases cell) simp_all
  qed
  have "\<not> isl (for_each [0..<length rooms] ?body ([], st))"
    by (rule for_each_total) (use body in blast)
  then obtain row st' where "for_each [0..<length rooms] ?body ([], st) = Inr (row, st')"
    by (cases "for_each [0..<length rooms] ?body ([], st)") auto
  then show ?thesis
    unfolding slot_row_def by simp
qed

lemma weekly_grid_total:
  assumes "\<forall>c<length courses. \<not> isl (teacher_of professors owner c)"
  shows "\<not> isl (weekly_grid days ns rooms courses professors owner a st)"
  unfolding weekly_grid_def
proof (intro for_each_total ballI allI)
  fix d st
  let ?inner = "for_each [0..<ns]
     (\<lambda>s st. let (v, st') = Value a (Yd d s) st
              in if v = 0 then Inr st' else slot_row rooms courses professors owner a d s st')
     (print (''=== '' @ days ! d @ '' ==='') st)"
  have "\<not> isl ?inner"
    by (intro for_each_total ballI allI) (simp add: Value_def slot_row_total [OF assms])
  then show "\<not> isl (case ?inner of Inl e \<Rightarrow> Inl e | Inr st' \<Rightarrow> Inr (print [] st'))"
    by (cases ?inner) auto
qed

lemma course_placements_loop:
  "fold (\<lambda>(d, s, r) (placements, st).
             let (v, st') = Value a (Xd c d s r) st
             in if v = 1 then (placements @ [text d s r], st') else (placements, st'))
     ks (pl, st) =
   (pl @ map (\<lambda>(d, s, r). text d s r) (filter (\<lambda>(d, s, r). a (Xd c d s r) = 1) ks),
    st\<lparr>value_reads := value_reads st @ map (\<lambda>(d, s, r). Xd c d s r) ks\<rparr>)"
  by (induction ks arbitrary: pl st) (auto simp: Value_def)

lemma course_placements_eq:
  "course_placements days ns rooms a c st =
     (map (\<lambda>(d, s, r). days ! d @ '' Slot'' @ str_nat (s + 1) @ '' in '' @ rooms ! r)
        (course_sessions a (length days) ns (length rooms) c),
      st\<lparr>value_reads := value_reads st @
         map (\<lambda>(d, s, r). Xd c d s r)
           [(d, s, r). d \<leftarrow> [0..<length days], s \<leftarrow> [0..<ns], r \<leftarrow> [0..<length rooms]]\<rparr>)"
  unfolding course_placements_def course_sessions_def
  by (simp only: course_placements_loop append_Nil)

lemma per_course_loop:
  "fold (\<lambda>c st. let (placements, st') = course_placements days ns rooms a c st
                 in print ('' '' @ ljust 8 (courses ! c) @ '' -> '' @ join '', '' placements) st')
     cs st =
   st\<lparr>value_reads := value_reads st @
        concat (map (\<lambda>c. map (\<lambda>(d, s, r). Xd c d s r)
           [(d, s, r). d \<leftarrow> [0..<length days], s \<leftarrow> [0..<ns], r \<leftarrow> [0..<length rooms]]) cs),
      printed := printed st @
        map (\<lambda>c. course_line days rooms courses c
                    (course_sessions a (length days) ns (length rooms) c)) cs\<rparr>"
  by (induction cs arbitrary: st)
    (simp_all add: course_placements_eq print_def course_line_def)

lemma per_course_printed:
  "printed (per_course days ns rooms courses a st) =
     printed st @ ''Per-course schedule:'' #
       map (\<lambda>c. course_line days rooms courses c
                   (course_sessions a (length days) ns (length rooms) c)) [0..<length courses]"
  unfolding per_course_def per_course_loop by (simp add: print_def)

lemma per_course_solve_calls:
  "solve_calls (per_course days ns rooms courses a st) = solve_calls st"
  unfolding per_course_def per_course_loop by (simp add: print_def)

section \<open>The runs\<close>

lemma report1_eq:
  "report1 courses rooms slots a st =
     (print ''Timetable:'' st)
       \<lparr>value_reads := value_reads (print ''Timetable:'' st) @
          map (\<lambda>(c, s, r). Xs c s r)
            [(c, s, r). c \<leftarrow> [0..<length courses], s \<leftarrow> [0..<length slots],
                        r \<leftarrow> [0..<length rooms]],
        printed := printed (print ''Timetable:'' st) @
          map (\<lambda>(c, s, r). placement_line1 courses rooms slots c s r)
            (filter (\<lambda>(c, s, r). a (Xs c s r) = 1)
              [(c, s, r). c \<leftarrow> [0..<length courses], s \<leftarrow> [0..<length slots],
                          r \<leftarrow> [0..<length rooms]])\<rparr>"
  unfolding report1_def
  by (rule report1_loop [where line = "placement_line1 courses rooms slots"])

lemma run1_eq:
  assumes "solve \<lparr>num_search_workers = None, max_time_in_seconds = None\<rparr>
             (build1 teachers courses rooms slots) = (status, a)"
  shows "run1 teachers courses rooms slots solve =
    (if status = OPTIMAL \<or> status = FEASIBLE then
       \<lparr>solve_calls = [build1 teachers courses rooms slots],
        value_reads = map (\<lambda>(c, s, r). Xs c s r)
          [(c, s, r). c \<leftarrow> [0..<length courses], s \<leftarrow> [0..<length slots],
                      r \<leftarrow> [0..<length rooms]],
        printed = ''Timetable:'' #
          map (\<lambda>(c, s, r). placement_line1 courses rooms slots c s r)
            (placements a (length courses) (length slots) (length rooms))\<rparr>
     else
       \<lparr>solve_calls = [build1 teachers courses rooms slots], value_reads = [],
        printed = [''No feasible solution.'']\<rparr>)"
  unfolding run1_def Let_def Solve_def assms
  by (simp add: report1_eq print_def start_def placements_def)

lemma construct2_Inr:
  assumes "construct2 teachers courses rooms slots rnd = Inr (owner, m)"
  shows "owner = drawn (length courses) (\<lambda>c. rnd c 0 (int (length teachers) - 1))"
    and "build2 teachers courses rooms slots owner = Inr m"
  using assms
  by (auto simp: construct2_def draw_course_teacher_eq split: sum.splits if_splits)

lemma run2_not_found:
  assumes "construct2 teachers courses rooms slots rnd = Inr (owner, m)"
    and "solve \<lparr>num_search_workers = Some 8, max_time_in_seconds = Some 30\<rparr> m = (status, a)"
    and "status \<noteq> OPTIMAL" and "status \<noteq> FEASIBLE"
  shows "run2 teachers courses rooms slots rnd solve =
     Inr \<lparr>solve_calls = [m], value_reads = [], printed = [''No feasible solution found.'']\<rparr>"
  unfolding run2_def Let_def Solve_def assms(1)
  using assms(2-) by (simp add: print_def start_def)

lemma run2_found:
  assumes "construct2 teachers courses rooms slots rnd = Inr (owner, m)"
    and "solve \<lparr>num_search_workers = Some 8, max_time_in_seconds = Some 30\<rparr> m = (status, a)"
    and "status = OPTIMAL \<or> status = FEASIBLE"
    and "\<forall>c<length courses. randint_result 0 (int (length teachers) - 1)
           (rnd c 0 (int (length teachers) - 1))"
  shows "run2 teachers courses rooms slots rnd solve =
     Inr \<lparr>solve_calls = [m],
        value_reads = map (\<lambda>(c, s, r). Xs c s r)
          [(c, s, r). c \<leftarrow> [0..<length courses], s \<leftarrow> [0..<length slots],
                      r \<leftarrow> [0..<length rooms]],
        printed = (''Generated Timetable:'' @ [CHR 0x0A]) #
          map (\<lambda>(c, s, r). placement_line2 courses rooms slots
                  (teachers ! nat (rnd c 0 (int (length teachers) - 1))) c s r)
            (placements a (length courses) (length slots) (length rooms))\<rparr>"
proof -
  let ?ks = "[(c, s, r). c \<leftarrow> [0..<length courses], s \<leftarrow> [0..<length slots],
                      r \<leftarrow> [0..<length rooms]]"
  note owner = construct2_Inr(1) [OF assms(1)]
  have t: "teacher_of teachers owner c = Inr (teachers ! nat (rnd c 0 (int (length teachers) - 1)))"
    if "c < length courses" for c
  proof -
    from assms(4) that have r: "0 \<le> rnd c 0 (int (length teachers) - 1)"
      "rnd c 0 (int (length teachers) - 1) < int (length teachers)"
      by (auto simp: randint_result_def)
    from list_get_valid [OF this] that show ?thesis
      by (simp add: owner drawn_def teacher_of_def dict_get_def)
  qed
  have all: "\<forall>(c, s, r)\<in>set ?ks.
      teacher_of teachers owner c = Inr (teachers ! nat (rnd c 0 (int (length teachers) - 1)))"
    using t by auto
  have rep: "report2 teachers courses rooms slots owner a st =
      Inr ((print (''Generated Timetable:'' @ [CHR 0x0A]) st)
        \<lparr>value_reads := value_reads (print (''Generated Timetable:'' @ [CHR 0x0A]) st) @
           map (\<lambda>(c, s, r). Xs c s r) ?ks,
         printed := printed (print (''Generated Timetable:'' @ [CHR 0x0A]) st) @
           map (\<lambda>(c, s, r). placement_line2 courses rooms slots
                   (teachers ! nat (rnd c 0 (int (length teachers) - 1))) c s r)
             (filter (\<lambda>(c, s, r). a (Xs c s r) = 1) ?ks)\<rparr>)" for st
    unfolding report2_def
    by (rule report2_loop [where line = "placement_line2 courses rooms slots"
          and tn = "\<lambda>c. teachers ! nat (rnd c 0 (int (length teachers) - 1))", OF all])
  show ?thesis
    unfolding run2_def Let_def Solve_def assms(1)
    using assms(2,3) by (simp add: rep print_def start_def placements_def)
qed

lemma valid_index_list_get: "valid_index xs i \<Longrightarrow> \<not> isl (list_get xs i)"
  by (simp add: valid_index_def list_get_def)

lemma run3_not_found:
  assumes "build3 days ns rooms courses course_freq professors owner = Inr m"
    and "solve \<lparr>num_search_workers = Some 8, max_time_in_seconds = Some 30\<rparr> m = (status, a)"
    and "status \<noteq> OPTIMAL" and "status \<noteq> FEASIBLE"
  shows "run3 days ns rooms courses course_freq professors owner solve =
     Inr \<lparr>solve_calls = [m], value_reads = [],
       printed = [''No feasible solution found. Try increasing slots per day or relaxing constraints.'']\<rparr>"
  unfolding run3_def Let_def Solve_def assms(1)
  using assms(2-) by (simp add: print_def start_def)

lemma run3_found:
  assumes "build3 days ns rooms courses course_freq professors owner = Inr m"
    and "solve \<lparr>num_search_workers = Some 8, max_time_in_seconds = Some 30\<rparr> m = (status, a)"
    and "status = OPTIMAL \<or> status = FEASIBLE"
    and "\<forall>c<length courses. \<exists>p. owner c = Some p \<and> valid_index professors p"
  shows "\<exists>st grid. run3 days ns rooms courses course_freq professors owner solve = Inr st \<and>
     printed st = grid @ ''Per-course schedule:'' #
       map (\<lambda>c. course_line days rooms courses c
                   (course_sessions a (length days) ns (length rooms) c)) [0..<length courses]"
proof -
  let ?st0 = "start\<lparr>solve_calls := solve_calls start @ [m]\<rparr>"
  let ?st1 = "print (''Weekly schedule (Day -> Slot -> Room : Course (Prof))'' @ [CHR 0x0A]) ?st0"
  have "\<not> isl (teacher_of professors owner c)" if "c < length courses" for c
  proof -
    from assms(4) that obtain p where "owner c = Some p" "valid_index professors p" by blast
    then show ?thesis by (simp add: teacher_of_def dict_get_def valid_index_list_get)
  qed
  then have "\<not> isl (weekly_grid days ns rooms courses professors owner a ?st1)"
    by (intro weekly_grid_total) blast
  then obtain st2 where grid: "weekly_grid days ns rooms courses professors owner a ?st1 = Inr st2"
    by (cases "weekly_grid days ns rooms courses professors owner a ?st1") auto
  have run: "run3 days ns rooms courses course_freq professors owner solve =
      Inr (per_course days ns rooms courses a st2)"
    unfolding run3_def Let_def Solve_def assms(1) report3_def
    using assms(2,3) grid by auto
  show ?thesis
    unfolding run using per_course_printed [of days ns rooms courses a st2] by blast
qed

lemma placed_map:
  "placed a (map f ks) = map f (filter (\<lambda>k. a (f k) = 1) ks)"
  by (simp add: placed_def filter_map comp_def)

lemma course_sessions_placed:
  "map (\<lambda>(d, s, r). Xd c d s r) (course_sessions a nd ns nr c) =
   placed a [Xd c d s r. d \<leftarrow> [0..<nd], s \<leftarrow> [0..<ns], r \<leftarrow> [0..<nr]]"
proof -
  have "[Xd c d s r. d \<leftarrow> [0..<nd], s \<leftarrow> [0..<ns], r \<leftarrow> [0..<nr]] =
        map (\<lambda>(d, s, r). Xd c d s r) [(d, s, r). d \<leftarrow> [0..<nd], s \<leftarrow> [0..<ns], r \<leftarrow> [0..<nr]]"
    by (simp add: map_concat comp_def)
  then show ?thesis
    by (simp only: placed_map course_sessions_def case_prod_unfold)
qed

lemma length_course_sessions:
  "length (course_sessions a nd ns nr c) =
   length (placed a [Xd c d s r. d \<leftarrow> [0..<nd], s \<leftarrow> [0..<ns], r \<leftarrow> [0..<nr]])"
  using arg_cong [OF course_sessions_placed [of c a nd ns nr], of length] by simp

lemma placements_by_course:
  "placements a nc ns nr =
   concat (map (\<lambda>c. map (\<lambda>(s, r). (c, s, r))
     (filter (\<lambda>(s, r). a (Xs c s r) = 1) [(s, r). s \<leftarrow> [0..<ns], r \<leftarrow> [0..<nr]])) [0..<nc])"
  unfolding placements_def
  by (simp add: filter_concat map_concat comp_def filter_map case_prod_unfold)

lemma length_placed_pairs:
  "length (filter (\<lambda>(s, r). a (Xs c s r) = 1) [(s, r). s \<leftarrow> [0..<ns], r \<leftarrow> [0..<nr]]) =
   length (placed a [Xs c s r. s \<leftarrow> [0..<ns], r \<leftarrow> [0..<nr]])"
proof -
  have "[Xs c s r. s \<leftarrow> [0..<ns], r \<leftarrow> [0..<nr]] =
        map (\<lambda>(s, r). Xs c s r) [(s, r). s \<leftarrow> [0..<ns], r \<leftarrow> [0..<nr]]"
    by (simp add: map_concat comp_def)
  then show ?thesis
    by (simp only: placed_map length_map case_prod_unfold)
qed

lemma length_placements:
  assumes "\<forall>c<nc. length (placed a [Xs c s r. s \<leftarrow> [0..<ns], r \<leftarrow> [0..<nr]]) = 1"
  shows "length (placements a nc ns nr) = nc"
proof -
  have "length (placements a nc ns nr) =
      sum_list (map (\<lambda>c. length (placed a [Xs c s r. s \<leftarrow> [0..<ns], r \<leftarrow> [0..<nr]])) [0..<nc])"
    unfolding placements_by_course length_concat
    by (simp only: map_map comp_def length_map length_placed_pairs)
  also have "\<dots> = sum_list (map (\<lambda>c. 1) [0..<nc])"
    using assms by (intro arg_cong [where f = sum_list] map_cong refl) simp
  also have "\<dots> = nc" by (simp add: sum_list_triv)
  finally show ?thesis .
qed

section \<open>The two-course instance, run\<close>

lemma demo_satisfies2_drawn: "satisfies demo_values (model2 (drawn 2 int) 2 2 2 2)"
  by code_simp

lemma demo_lines1:
  "map (\<lambda>(c, s, r). placement_line1 courses1 rooms1 slots1 c s r)
     (placements demo_values (length courses1) (length slots1) (length rooms1)) =
   ['' Course Math in Room1 at Morning'', '' Course Physics in Room1 at Afternoon'']"
  by code_simp

lemma demo_lines2:
  "map (\<lambda>(c, s, r). placement_line2 courses1 rooms1 slots1
          (teachers1 ! nat (cycle_source c 0 (int (length teachers1) - 1))) c s r)
     (placements demo_values (length courses1) (length slots1) (length rooms1)) =
   [''Math       taught by Prof A     in Room1  at Morning'',
    ''Physics    taught by Prof B     in Room1  at Afternoon'']"
  by code_simp

lemma demo_lines3:
  "map (\<lambda>c. course_line demo_days rooms1 courses1 c
              (course_sessions demo_values (length demo_days) 2 (length rooms1) c))
     [0..<length courses1] =
   ['' Math     -> Mon Slot1 in Room1, Tue Slot1 in Room1'',
    '' Physics  -> Mon Slot2 in Room1'']"
  by code_simp

lemma cycle_promise: "randint_promise cycle_source"
  unfolding randint_promise_def randint_result_def cycle_source_def
proof (intro allI impI)
  fix k :: nat and a b :: int
  assume "a \<le> b"
  then have pos: "0 < b - a + 1" by simp
  have "0 \<le> int k mod (b - a + 1)" by (rule pos_mod_sign [OF pos])
  moreover have "int k mod (b - a + 1) < b - a + 1" by (rule pos_mod_bound [OF pos])
  ultimately show "a \<le> a + int k mod (b - a + 1) \<and> a + int k mod (b - a + 1) \<le> b"
    by arith
qed

lemma demo_drawn:
  "drawn 2 (\<lambda>c. cycle_source c 0 (int (length teachers1) - 1)) = drawn 2 int"
  by (rule ext) (simp add: drawn_def cycle_source_def demo_lengths)

lemma demo_draws:
  "\<forall>c<length courses1. randint_result 0 (int (length teachers1) - 1)
     (cycle_source c 0 (int (length teachers1) - 1))"
  using promise_draws [OF cycle_promise, of teachers1] by (simp add: teachers1_def)

lemma demo_profs:
  "\<forall>c<length courses1. \<exists>p. demo_owner c = Some p \<and> valid_index teachers1 p"
  by (auto simp: demo_lengths demo_owner_def valid_index_def less_Suc_eq numeral_2_eq_2)

lemma demo_construct2:
  "construct2 teachers1 courses1 rooms1 slots1 cycle_source =
     Inr (drawn 2 int, model2 (drawn 2 int) 2 2 2 2)"
proof -
  have "teachers1 \<noteq> [] \<or> courses1 = []" by (simp add: teachers1_def)
  from construct2_eq [OF this, of rooms1 slots1 cycle_source] show ?thesis
    unfolding demo_lengths demo_drawn [unfolded demo_lengths] .
qed

section \<open>Clearing the indicator of an unused slot\<close>

lemma sum_list_upd_other:
  "v \<notin> set vs \<Longrightarrow> sum_list (map (a(v := x)) vs) = sum_list (map a vs)"
  by (induction vs) auto

lemma sum_list_upd_member:
  "distinct vs \<Longrightarrow> v \<in> set vs \<Longrightarrow>
   sum_list (map (a(v := x)) vs) = sum_list (map a vs) - a v + (x::int)"
  by (induction vs) (auto simp: sum_list_upd_other)

lemma indicators_product:
  "[Yd d s. d \<leftarrow> [0..<nd], s \<leftarrow> [0..<ns]] =
   map (\<lambda>(d, s). Yd d s) (List.product [0..<nd] [0..<ns])"
  by (simp add: product_concat_map map_concat comp_def)

lemma distinct_indicators: "distinct [Yd d s. d \<leftarrow> [0..<nd], s \<leftarrow> [0..<ns]]"
  unfolding indicators_product
  by (auto simp: distinct_map distinct_product inj_on_def)

lemma indicator_mem:
  "d < nd \<Longrightarrow> s < ns \<Longrightarrow> Yd d s \<in> set [Yd d s. d \<leftarrow> [0..<nd], s \<leftarrow> [0..<ns]]"
  by force

lemma frequency_family_form:
  "ct \<in> set (frequency_family course_freq nc nd ns nr) \<Longrightarrow>
   \<exists>vs k. ct = LinEq (LinSum vs) (IntConst k) \<and> Yd d s \<notin> set vs"
  by (auto simp: frequency_family_def)

lemma day_family_form:
  "ct \<in> set (day_family nc nd ns nr) \<Longrightarrow>
   \<exists>vs k. ct = LinLe (LinSum vs) (IntConst k) \<and> Yd d s \<notin> set vs"
  by (auto simp: day_family_def once_per_day_def)

lemma room_family_form:
  "ct \<in> set (room_family nc nd ns nr) \<Longrightarrow>
   \<exists>vs k. ct = LinLe (LinSum vs) (IntConst k) \<and> Yd d s \<notin> set vs"
  by (auto simp: room_family_def room_clash_d_def)

lemma prof_family_form:
  "ct \<in> set (prof_family owner np nc nd ns nr) \<Longrightarrow>
   \<exists>vs k. ct = LinLe (LinSum vs) (IntConst k) \<and> Yd d s \<notin> set vs"
  by (auto simp: prof_family_def)

lemma link_family_form:
  "ct \<in> set (link_family nc nd ns nr) \<Longrightarrow>
   \<exists>d' s'. d' < nd \<and> s' < ns \<and>
     ct = LinLe (LinSum [Xd c d' s' r. c \<leftarrow> [0..<nc], r \<leftarrow> [0..<nr]])
            (Scaled (int (nc * nr)) (Yd d' s'))"
  by (auto simp: link_family_def link_xy_def)

lemma slot_vars_no_indicator:
  "Yd d s \<notin> set [Xd c d' s' r. c \<leftarrow> cs, r \<leftarrow> rs]"
  by auto

lemma clear_indicator:
  assumes b: "build3 days ns rooms courses course_freq professors owner = Inr m"
    and sat: "satisfies a m" and d: "d < length days" and s: "s < ns"
    and y: "a (Yd d s) = 1"
    and e: "placed a [Xd c d s r. c \<leftarrow> [0..<length courses], r \<leftarrow> [0..<length rooms]] = []"
  shows "satisfies (a(Yd d s := 0)) m"
    and "objective_value (a(Yd d s := 0)) m = objective_value a m - 1"
proof -
  let ?a = "a(Yd d s := 0)"
  let ?nc = "length courses" and ?nd = "length days" and ?nr = "length rooms"
  note m = build3_model [OF b]
  have bin: "a v = 0 \<or> a v = 1" if "v \<in> declared m" for v
    using satisfies_binary [OF sat that] .
  have bin': "list_all (\<lambda>(name, v). ?a v = 0 \<or> ?a v = 1) (variables m)"
    unfolding list_all_iff
  proof (intro ballI)
    fix nv assume nv: "nv \<in> set (variables m)"
    then have "snd nv \<in> declared m" by (simp add: declared_def)
    from bin [OF this] show "case nv of (name, v) \<Rightarrow> ?a v = 0 \<or> ?a v = 1"
      by (cases nv) auto
  qed
  have plain_eq: "holds ?a (LinEq (LinSum vs) (IntConst k))"
    if "holds a (LinEq (LinSum vs) (IntConst k))" "Yd d s \<notin> set vs" for vs k
    using that by (simp add: sum_list_upd_other)
  have plain_le: "holds ?a (LinLe (LinSum vs) (IntConst k))"
    if "holds a (LinLe (LinSum vs) (IntConst k))" "Yd d s \<notin> set vs" for vs k
    using that by (simp add: sum_list_upd_other)
  have link: "holds ?a (LinLe (LinSum [Xd c d' s' r. c \<leftarrow> [0..<?nc], r \<leftarrow> [0..<?nr]])
                 (Scaled (int (?nc * ?nr)) (Yd d' s')))"
    if h: "holds a (LinLe (LinSum [Xd c d' s' r. c \<leftarrow> [0..<?nc], r \<leftarrow> [0..<?nr]])
                 (Scaled (int (?nc * ?nr)) (Yd d' s')))"
      and r: "d' < ?nd" "s' < ns" for d' s'
  proof (cases "d' = d \<and> s' = s")
    case True
    let ?vs = "[Xd c d s r. c \<leftarrow> [0..<?nc], r \<leftarrow> [0..<?nr]]"
    have "set ?vs \<subseteq> declared m" using d s unfolding m declared3 by auto
    then have "\<forall>v\<in>set ?vs. a v = 0 \<or> a v = 1" using bin by blast
    from sum_placed [OF this] e have "sum_list (map a ?vs) = 0" by simp
    moreover have "sum_list (map ?a ?vs) = sum_list (map a ?vs)"
      by (rule sum_list_upd_other) (rule slot_vars_no_indicator)
    ultimately show ?thesis using True by simp
  next
    case False
    let ?vs = "[Xd c d' s' r. c \<leftarrow> [0..<?nc], r \<leftarrow> [0..<?nr]]"
    have "sum_list (map ?a ?vs) = sum_list (map a ?vs)"
      by (rule sum_list_upd_other) (rule slot_vars_no_indicator)
    moreover from False have "?a (Yd d' s') = a (Yd d' s')" by auto
    ultimately show ?thesis using h by simp
  qed
  have cts: "list_all (holds ?a) (constraints m)"
    unfolding list_all_iff
  proof (intro ballI)
    fix ct assume ct: "ct \<in> set (constraints m)"
    note h = satisfies_holds [OF sat ct]
    from ct consider
      "ct \<in> set (frequency_family course_freq ?nc ?nd ns ?nr)"
      | "ct \<in> set (day_family ?nc ?nd ns ?nr)"
      | "ct \<in> set (room_family ?nc ?nd ns ?nr)"
      | "ct \<in> set (prof_family owner (length professors) ?nc ?nd ns ?nr)"
      | "ct \<in> set (link_family ?nc ?nd ns ?nr)"
      unfolding m constraints_model3 by blast
    then show "holds ?a ct"
    proof cases
      case 1
      from frequency_family_form [OF this, of d s] h plain_eq show ?thesis by blast
    next
      case 2
      from day_family_form [OF this, of d s] h plain_le show ?thesis by blast
    next
      case 3
      from room_family_form [OF this, of d s] h plain_le show ?thesis by blast
    next
      case 4
      from prof_family_form [OF this, of d s] h plain_le show ?thesis by blast
    next
      case 5
      from link_family_form [OF this] h link show ?thesis by blast
    qed
  qed
  from bin' cts show "satisfies ?a m" by (simp add: satisfies_def)
  have "sum_list (map ?a [Yd d s. d \<leftarrow> [0..<?nd], s \<leftarrow> [0..<ns]]) =
        sum_list (map a [Yd d s. d \<leftarrow> [0..<?nd], s \<leftarrow> [0..<ns]]) - a (Yd d s) + 0"
    by (rule sum_list_upd_member [OF distinct_indicators indicator_mem [OF d s]])
  with y show "objective_value ?a m = objective_value a m - 1"
    unfolding m by (simp add: objective_value_def model3_def)
qed

section \<open>The third script on its own data\<close>

lemma lengths3:
  "length days3 = 5" "length rooms3 = 3" "length courses3 = 6" "length professors3 = 2"
  "max_slots_per_day3 = 6"
  by (simp_all add: days3_def rooms3_def courses3_def professors3_def max_slots_per_day3_def)

lemma less_six: "c < (6::nat) \<Longrightarrow> c = 0 \<or> c = 1 \<or> c = 2 \<or> c = 3 \<or> c = 4 \<or> c = 5"
  by arith

lemma course_freq3_total: "c < 6 \<Longrightarrow> \<exists>f. course_freq3 c = Some f \<and> int64 f"
  by (drule less_six) (auto simp: course_freq3_def int64_def)

lemma course_prof3_total: "c < 6 \<Longrightarrow> course_prof3 c \<noteq> None"
  by (drule less_six) (auto simp: course_prof3_def)

lemma build3_total:
  assumes "\<forall>c<length courses. \<exists>f. course_freq c = Some f \<and> int64 f"
    and "\<forall>c<length courses. owner c \<noteq> None"
  shows "build3 days ns rooms courses course_freq professors owner =
     Inr (model3 course_freq owner (length professors) (length courses) (length days) ns
            (length rooms))"
  unfolding build3_iff using assms by blast

lemma build3_script:
  "build3 days3 max_slots_per_day3 rooms3 courses3 course_freq3 professors3 course_prof3 =
     Inr (model3 course_freq3 course_prof3 2 6 5 6 3)"
  using build3_total [of courses3 course_freq3 course_prof3 days3 max_slots_per_day3 rooms3
      professors3] course_freq3_total course_prof3_total
  by (simp add: lengths3)

lemma week_values_binary: "week_values v = 0 \<or> week_values v = 1"
  by (cases v) (simp_all add: week_values_def)

lemma week_frequency: "list_all (holds week_values) (frequency_family course_freq3 6 5 6 3)"
  by code_simp

lemma week_day: "list_all (holds week_values) (day_family 6 5 6 3)"
  by code_simp

lemma week_room: "list_all (holds week_values) (room_family 6 5 6 3)"
  by code_simp

lemma week_prof: "list_all (holds week_values) (prof_family course_prof3 2 6 5 6 3)"
  by code_simp

lemma week_link: "list_all (holds week_values) (link_family 6 5 6 3)"
  by code_simp

lemma week_satisfies: "satisfies week_values (model3 course_freq3 course_prof3 2 6 5 6 3)"
  unfolding satisfies_def
proof
  show "list_all (\<lambda>(name, v). week_values v = 0 \<or> week_values v = 1)
          (variables (model3 course_freq3 course_prof3 2 6 5 6 3))"
    unfolding list_all_iff using week_values_binary by auto
  show "list_all (holds week_values) (constraints (model3 course_freq3 course_prof3 2 6 5 6 3))"
    using week_frequency week_day week_room week_prof week_link
    by (simp add: model3_def)
qed

section \<open>A frequency above the number of days\<close>





section \<open>The second run does not raise\<close>

lemma run2_total:
  assumes v: "\<forall>c<length courses. randint_result 0 (int (length teachers) - 1)
                (rnd c 0 (int (length teachers) - 1))"
  shows "\<exists>st. run2 teachers courses rooms slots rnd solve = Inr st"
proof -
  have t: "teachers \<noteq> [] \<or> courses = []"
  proof (cases courses)
    case Nil then show ?thesis by simp
  next
    case (Cons x xs)
    with v have "randint_result 0 (int (length teachers) - 1)
        (rnd 0 0 (int (length teachers) - 1))" by auto
    then show ?thesis by (auto simp: randint_result_def)
  qed
  let ?m = "model2 (drawn (length courses) (\<lambda>c. rnd c 0 (int (length teachers) - 1)))
              (length teachers) (length courses) (length slots) (length rooms)"
  note c = construct2_eq [OF t, of rooms slots rnd]
  obtain status a where
    s: "solve \<lparr>num_search_workers = Some 8, max_time_in_seconds = Some 30\<rparr> ?m = (status, a)"
    by (cases "solve \<lparr>num_search_workers = Some 8, max_time_in_seconds = Some 30\<rparr> ?m")
  show ?thesis
  proof (cases "status = OPTIMAL \<or> status = FEASIBLE")
    case True
    from run2_found [where solve = solve, OF c s True v] show ?thesis by blast
  next
    case False
    then have "status \<noteq> OPTIMAL" "status \<noteq> FEASIBLE" by auto
    from run2_not_found [where solve = solve, OF c s this] show ?thesis by blast
  qed
qed
section \<open>The claims\<close>

text \<open>
  C1 (frequency law). For every course c each model contains the constraint that the sum
  of the course's assignment variables, over all slots (days and slots) and rooms,
  equals the course's frequency: 1 in the first two scripts, \<^verbatim>\<open>course_freq[c]\<close> in
  the third. Hence in every assignment that satisfies the model, as the values reported
  with OPTIMAL or FEASIBLE do, the number of placements of c is that frequency.
\<close>

theorem frequency_law:
  "c < length courses \<longrightarrow>
     (LinEq (LinSum [Xs c s r. s \<leftarrow> [0..<length slots], r \<leftarrow> [0..<length rooms]]) (IntConst 1)
        \<in> set (constraints (build1 teachers courses rooms slots)) \<and>
      (satisfies a (build1 teachers courses rooms slots) \<longrightarrow>
         length (placed a [Xs c s r. s \<leftarrow> [0..<length slots], r \<leftarrow> [0..<length rooms]]) = 1)) \<and>
     (build2 teachers courses rooms slots course_teacher = Inr m2 \<longrightarrow>
        LinEq (LinSum [Xs c s r. s \<leftarrow> [0..<length slots], r \<leftarrow> [0..<length rooms]]) (IntConst 1)
          \<in> set (constraints m2) \<and>
        (satisfies a m2 \<longrightarrow>
           length (placed a [Xs c s r. s \<leftarrow> [0..<length slots], r \<leftarrow> [0..<length rooms]]) = 1)) \<and>
     (build3 days max_slots_per_day rooms courses course_freq professors course_prof = Inr m3 \<longrightarrow>
        (\<exists>f. course_freq c = Some f \<and>
           LinEq (LinSum [Xd c d s r. d \<leftarrow> [0..<length days], s \<leftarrow> [0..<max_slots_per_day],
                            r \<leftarrow> [0..<length rooms]]) (IntConst f) \<in> set (constraints m3) \<and>
           (satisfies a m3 \<longrightarrow>
              int (length (placed a [Xd c d s r. d \<leftarrow> [0..<length days],
                      s \<leftarrow> [0..<max_slots_per_day], r \<leftarrow> [0..<length rooms]])) = f)))"
proof (intro impI conjI)
  assume c: "c < length courses"
  show "LinEq (LinSum [Xs c s r. s \<leftarrow> [0..<length slots], r \<leftarrow> [0..<length rooms]]) (IntConst 1)
        \<in> set (constraints (build1 teachers courses rooms slots))"
    by (rule frequency1(1) [OF c])
  show "length (placed a [Xs c s r. s \<leftarrow> [0..<length slots], r \<leftarrow> [0..<length rooms]]) = 1"
    if "satisfies a (build1 teachers courses rooms slots)"
    by (rule frequency1(2) [OF c that])
  show "LinEq (LinSum [Xs c s r. s \<leftarrow> [0..<length slots], r \<leftarrow> [0..<length rooms]]) (IntConst 1)
          \<in> set (constraints m2)"
    if "build2 teachers courses rooms slots course_teacher = Inr m2"
    by (rule frequency2(1) [OF that c])
  show "length (placed a [Xs c s r. s \<leftarrow> [0..<length slots], r \<leftarrow> [0..<length rooms]]) = 1"
    if "build2 teachers courses rooms slots course_teacher = Inr m2" and "satisfies a m2"
    by (rule frequency2(2) [OF that(1) c that(2)])
  show "\<exists>f. course_freq c = Some f \<and>
           LinEq (LinSum [Xd c d s r. d \<leftarrow> [0..<length days], s \<leftarrow> [0..<max_slots_per_day],
                            r \<leftarrow> [0..<length rooms]]) (IntConst f) \<in> set (constraints m3) \<and>
           (satisfies a m3 \<longrightarrow>
              int (length (placed a [Xd c d s r. d \<leftarrow> [0..<length days],
                      s \<leftarrow> [0..<max_slots_per_day], r \<leftarrow> [0..<length rooms]])) = f)"
    if "build3 days max_slots_per_day rooms courses course_freq professors course_prof = Inr m3"
    by (rule frequency3 [OF that c])
qed

theorem frequency_law_witness:
  "(0::nat) < length courses1 \<and>
   satisfies demo_values (build1 teachers1 courses1 rooms1 slots1) \<and>
   build2 teachers1 courses1 rooms1 slots1 demo_owner = Inr (model2 demo_owner 2 2 2 2) \<and>
   satisfies demo_values (model2 demo_owner 2 2 2 2) \<and>
   build3 demo_days 2 rooms1 courses1 demo_freq teachers1 demo_owner =
     Inr (model3 demo_freq demo_owner 2 2 2 2 2) \<and>
   satisfies demo_values (model3 demo_freq demo_owner 2 2 2 2 2) \<and>
   length (placed demo_values [Xs 0 s r. s \<leftarrow> [0..<length slots1], r \<leftarrow> [0..<length rooms1]]) = 1 \<and>
   demo_freq 0 = Some 2 \<and>
   int (length (placed demo_values [Xd 0 d s r. d \<leftarrow> [0..<length demo_days], s \<leftarrow> [0..<2],
                                      r \<leftarrow> [0..<length rooms1]])) = 2"
proof -
  have c: "(0::nat) < length courses1" by (simp add: courses1_def)
  have f: "demo_freq 0 = Some 2" by (simp add: demo_freq_def)
  note law = frequency_law [where c = 0 and courses = courses1 and slots = slots1
      and rooms = rooms1 and teachers = teachers1 and a = demo_values
      and course_teacher = demo_owner and ?m2.0 = "model2 demo_owner 2 2 2 2"
      and days = demo_days and max_slots_per_day = 2 and course_freq = demo_freq
      and professors = teachers1 and course_prof = demo_owner
      and ?m3.0 = "model3 demo_freq demo_owner 2 2 2 2 2"]
  from law c f demo_satisfies1 demo_build2 demo_satisfies2 demo_build3 demo_satisfies3
  show ?thesis by auto
qed

text \<open>
  C7 (room exclusivity). For every slot and room (day, slot and room in the third
  script) each model contains the constraint that the sum of the assignment variables
  of all courses there is at most 1. Hence in every assignment that satisfies the model
  at most one course is placed in a given room at a given slot.
\<close>

theorem room_exclusivity:
  "(s < length slots \<and> r < length rooms \<longrightarrow>
      LinLe (LinSum [Xs c s r. c \<leftarrow> [0..<length courses]]) (IntConst 1)
        \<in> set (constraints (build1 teachers courses rooms slots)) \<and>
      (satisfies a (build1 teachers courses rooms slots) \<longrightarrow>
         length (placed a [Xs c s r. c \<leftarrow> [0..<length courses]]) \<le> 1)) \<and>
   (s < length slots \<and> r < length rooms \<and>
    build2 teachers courses rooms slots course_teacher = Inr m2 \<longrightarrow>
      LinLe (LinSum [Xs c s r. c \<leftarrow> [0..<length courses]]) (IntConst 1) \<in> set (constraints m2) \<and>
      (satisfies a m2 \<longrightarrow> length (placed a [Xs c s r. c \<leftarrow> [0..<length courses]]) \<le> 1)) \<and>
   (d < length days \<and> s < max_slots_per_day \<and> r < length rooms \<and>
    build3 days max_slots_per_day rooms courses course_freq professors course_prof = Inr m3 \<longrightarrow>
      LinLe (LinSum [Xd c d s r. c \<leftarrow> [0..<length courses]]) (IntConst 1) \<in> set (constraints m3) \<and>
      (satisfies a m3 \<longrightarrow> length (placed a [Xd c d s r. c \<leftarrow> [0..<length courses]]) \<le> 1))"
  using room1 [of s slots r rooms courses teachers a]
    room2 [of teachers courses rooms slots course_teacher m2 s r a]
    room3 [of days max_slots_per_day rooms courses course_freq professors course_prof m3 d s r a]
  by blast

theorem room_exclusivity_witness:
  "(0::nat) < length slots1 \<and> (0::nat) < length rooms1 \<and> (0::nat) < length demo_days \<and>
   (0::nat) < 2 \<and>
   satisfies demo_values (build1 teachers1 courses1 rooms1 slots1) \<and>
   build2 teachers1 courses1 rooms1 slots1 demo_owner = Inr (model2 demo_owner 2 2 2 2) \<and>
   satisfies demo_values (model2 demo_owner 2 2 2 2) \<and>
   build3 demo_days 2 rooms1 courses1 demo_freq teachers1 demo_owner =
     Inr (model3 demo_freq demo_owner 2 2 2 2 2) \<and>
   satisfies demo_values (model3 demo_freq demo_owner 2 2 2 2 2) \<and>
   length (placed demo_values [Xs c 0 0. c \<leftarrow> [0..<length courses1]]) \<le> 1 \<and>
   length (placed demo_values [Xd c 0 0 0. c \<leftarrow> [0..<length courses1]]) \<le> 1"
proof -
  have h: "(0::nat) < length slots1" "(0::nat) < length rooms1" "(0::nat) < length demo_days"
    by (simp_all add: demo_lengths)
  note law = room_exclusivity [where s = 0 and r = 0 and d = 0 and courses = courses1
      and slots = slots1 and rooms = rooms1 and teachers = teachers1 and a = demo_values
      and course_teacher = demo_owner and ?m2.0 = "model2 demo_owner 2 2 2 2"
      and days = demo_days and max_slots_per_day = 2 and course_freq = demo_freq
      and professors = teachers1 and course_prof = demo_owner
      and ?m3.0 = "model3 demo_freq demo_owner 2 2 2 2 2"]
  from law h demo_satisfies1 demo_build2 demo_satisfies2 demo_build3 demo_satisfies3
  show ?thesis by auto
qed

text \<open>
  C8 (one session per day). The third script, the only one with a day axis, adds for
  every course c and day d the constraint that the sum of \<^verbatim>\<open>x[c,d,s,r]\<close> over all
  slots and rooms is at most 1. Hence in every assignment that satisfies the model no
  course has two placements on the same day.
\<close>

theorem once_per_day_law:
  "c < length courses \<and> d < length days \<and>
   build3 days max_slots_per_day rooms courses course_freq professors course_prof = Inr m \<longrightarrow>
     LinLe (LinSum [Xd c d s r. s \<leftarrow> [0..<max_slots_per_day], r \<leftarrow> [0..<length rooms]]) (IntConst 1)
       \<in> set (constraints m) \<and>
     (satisfies a m \<longrightarrow>
        length (placed a [Xd c d s r. s \<leftarrow> [0..<max_slots_per_day], r \<leftarrow> [0..<length rooms]]) \<le> 1)"
  using day3 [of days max_slots_per_day rooms courses course_freq professors course_prof m c d a]
  by blast

theorem once_per_day_law_witness:
  "(0::nat) < length courses1 \<and> (0::nat) < length demo_days \<and>
   build3 demo_days 2 rooms1 courses1 demo_freq teachers1 demo_owner =
     Inr (model3 demo_freq demo_owner 2 2 2 2 2) \<and>
   satisfies demo_values (model3 demo_freq demo_owner 2 2 2 2 2) \<and>
   length (placed demo_values [Xd 0 0 s r. s \<leftarrow> [0..<2], r \<leftarrow> [0..<length rooms1]]) \<le> 1"
proof -
  have h: "(0::nat) < length courses1" "(0::nat) < length demo_days"
    by (simp_all add: demo_lengths)
  note law = once_per_day_law [where c = 0 and d = 0 and courses = courses1
      and rooms = rooms1 and a = demo_values
      and days = demo_days and max_slots_per_day = 2 and course_freq = demo_freq
      and professors = teachers1 and course_prof = demo_owner
      and m = "model3 demo_freq demo_owner 2 2 2 2 2"]
  from law h demo_build3 demo_satisfies3
  show ?thesis by auto
qed

text \<open>
  C6 (linking constraint). For every slot (d, s) the third model contains the constraint
  \<^verbatim>\<open>sum(x[c,d,s,r] for c, r) <= bigM * y[d,s]\<close> with bigM the number of courses times
  the number of rooms, and in every assignment that satisfies the model a placement at
  (d, s) forces \<^verbatim>\<open>y[d,s]\<close> to 1.
\<close>

theorem link_constraint:
  "d < length days \<and> s < max_slots_per_day \<and>
   build3 days max_slots_per_day rooms courses course_freq professors course_prof = Inr m \<longrightarrow>
     LinLe (LinSum [Xd c d s r. c \<leftarrow> [0..<length courses], r \<leftarrow> [0..<length rooms]])
       (Scaled (int (length courses * length rooms)) (Yd d s)) \<in> set (constraints m) \<and>
     (satisfies a m \<and> c < length courses \<and> r < length rooms \<and> a (Xd c d s r) = 1 \<longrightarrow>
        a (Yd d s) = 1)"
  using link3_mem [of days max_slots_per_day rooms courses course_freq professors course_prof m d s]
    link3_forces [of days max_slots_per_day rooms courses course_freq professors course_prof m d s c r a]
  by blast

theorem link_constraint_witness:
  "(0::nat) < length demo_days \<and> (0::nat) < 2 \<and>
   build3 demo_days 2 rooms1 courses1 demo_freq teachers1 demo_owner =
     Inr (model3 demo_freq demo_owner 2 2 2 2 2) \<and>
   satisfies demo_values (model3 demo_freq demo_owner 2 2 2 2 2) \<and>
   (0::nat) < length courses1 \<and> (0::nat) < length rooms1 \<and> demo_values (Xd 0 0 0 0) = 1 \<and>
   LinLe (LinSum [Xd c 0 0 r. c \<leftarrow> [0..<length courses1], r \<leftarrow> [0..<length rooms1]])
       (Scaled (int (length courses1 * length rooms1)) (Yd 0 0))
     \<in> set (constraints (model3 demo_freq demo_owner 2 2 2 2 2)) \<and>
   demo_values (Yd 0 0) = 1"
proof -
  have h: "(0::nat) < length courses1" "(0::nat) < length demo_days" "(0::nat) < length rooms1"
    by (simp_all add: demo_lengths)
  have x: "demo_values (Xd 0 0 0 0) = 1" by (simp add: demo_values_def)
  note law = link_constraint [where c = 0 and d = 0 and s = 0 and r = 0 and courses = courses1
      and rooms = rooms1 and a = demo_values
      and days = demo_days and max_slots_per_day = 2 and course_freq = demo_freq
      and professors = teachers1 and course_prof = demo_owner
      and m = "model3 demo_freq demo_owner 2 2 2 2 2"]
  from law h x demo_build3 demo_satisfies3
  show ?thesis by auto
qed

text \<open>
  C2 (teacher exclusivity), as the code has it. The second and the third script add, for
  every teacher (professor) t and every slot, the constraint that the sum of the
  assignment variables of the courses of t over all rooms is at most 1, so that in
  every assignment satisfying the model no teacher is placed twice in a slot. The first
  script relates no course to a teacher: its model does not depend on the list
  \<^verbatim>\<open>teachers\<close> and consists of the exactly-once and the room constraints only.
\<close>

theorem teacher_exclusivity:
  "(t < length teachers \<and> s < length slots \<and>
    build2 teachers courses rooms slots course_teacher = Inr m2 \<longrightarrow>
      LinLe (LinSum [Xs c s r. c \<leftarrow> owned course_teacher (length courses) t,
                       r \<leftarrow> [0..<length rooms]]) (IntConst 1) \<in> set (constraints m2) \<and>
      (satisfies a m2 \<longrightarrow>
         length (placed a [Xs c s r. c \<leftarrow> owned course_teacher (length courses) t,
                             r \<leftarrow> [0..<length rooms]]) \<le> 1)) \<and>
   (p < length professors \<and> d < length days \<and> s < max_slots_per_day \<and>
    build3 days max_slots_per_day rooms courses course_freq professors course_prof = Inr m3 \<longrightarrow>
      LinLe (LinSum [Xd c d s r. c \<leftarrow> owned course_prof (length courses) p,
                       r \<leftarrow> [0..<length rooms]]) (IntConst 1) \<in> set (constraints m3) \<and>
      (satisfies a m3 \<longrightarrow>
         length (placed a [Xd c d s r. c \<leftarrow> owned course_prof (length courses) p,
                             r \<leftarrow> [0..<length rooms]]) \<le> 1)) \<and>
   build1 teachers courses rooms slots = build1 [] courses rooms slots \<and>
   constraints (build1 teachers courses rooms slots) =
     map (exactly_once (length slots) (length rooms)) [0..<length courses] @
     map (\<lambda>(s, r). room_clash (length courses) s r)
       [(s, r). s \<leftarrow> [0..<length slots], r \<leftarrow> [0..<length rooms]]"
  using teacher2 [of teachers courses rooms slots course_teacher m2 t s a]
    prof3 [of days max_slots_per_day rooms courses course_freq professors course_prof m3 p d s a]
  by (simp add: build1_eq constraints1_def)

theorem teacher_exclusivity_witness:
  "(0::nat) < length teachers1 \<and> (0::nat) < length slots1 \<and> (0::nat) < length demo_days \<and>
   (0::nat) < 2 \<and>
   build2 teachers1 courses1 rooms1 slots1 demo_owner = Inr (model2 demo_owner 2 2 2 2) \<and>
   satisfies demo_values (model2 demo_owner 2 2 2 2) \<and>
   build3 demo_days 2 rooms1 courses1 demo_freq teachers1 demo_owner =
     Inr (model3 demo_freq demo_owner 2 2 2 2 2) \<and>
   satisfies demo_values (model3 demo_freq demo_owner 2 2 2 2 2) \<and>
   length (placed demo_values [Xs c 0 r. c \<leftarrow> owned demo_owner (length courses1) 0,
                                 r \<leftarrow> [0..<length rooms1]]) \<le> 1 \<and>
   length (placed demo_values [Xd c 0 0 r. c \<leftarrow> owned demo_owner (length courses1) 0,
                                 r \<leftarrow> [0..<length rooms1]]) \<le> 1"
proof -
  have h: "(0::nat) < length teachers1" "(0::nat) < length slots1" "(0::nat) < length demo_days"
    by (simp_all add: demo_lengths)
  note law = teacher_exclusivity [where t = 0 and s = 0 and p = 0 and d = 0
      and courses = courses1 and slots = slots1 and rooms = rooms1 and teachers = teachers1
      and a = demo_values and course_teacher = demo_owner
      and ?m2.0 = "model2 demo_owner 2 2 2 2"
      and days = demo_days and max_slots_per_day = 2 and course_freq = demo_freq
      and professors = teachers1 and course_prof = demo_owner
      and ?m3.0 = "model3 demo_freq demo_owner 2 2 2 2 2"]
  from law h demo_build2 demo_satisfies2 demo_build3 demo_satisfies3
  show ?thesis by auto
qed

text \<open>
  C2, where the claim fails. The first script's model has an assignment that satisfies it with both courses in the
  morning slot, which places a teacher who owned both twice; and whichever teacher owns
  which course, the constraint of teacher 0 for slot 0 is not in the model.
\<close>

theorem teacher_exclusivity_counterexample:
  "satisfies clash_values (build1 teachers1 courses1 rooms1 slots1) \<and>
   length (placed clash_values
     [Xs c 0 r. c \<leftarrow> owned [0 \<mapsto> 0, 1 \<mapsto> 0] (length courses1) 0, r \<leftarrow> [0..<length rooms1]]) = 2 \<and>
   list_all (\<lambda>course_teacher.
       LinLe (LinSum [Xs c 0 r. c \<leftarrow> owned course_teacher (length courses1) 0,
                        r \<leftarrow> [0..<length rooms1]]) (IntConst 1)
         \<notin> set (constraints (build1 teachers1 courses1 rooms1 slots1)))
     [[0 \<mapsto> 0, 1 \<mapsto> 0], [0 \<mapsto> 0, 1 \<mapsto> 1], [0 \<mapsto> 1, 1 \<mapsto> 0], [0 \<mapsto> 1, 1 \<mapsto> 1]]"
  by code_simp

text \<open>
  C9 (placements only with OPTIMAL or FEASIBLE). When the solver returns any other
  status, each script prints its no-solution message and nothing else, and reads no
  variable value. When it returns OPTIMAL or FEASIBLE, the first two scripts print
  their header and then one line for each variable whose value is 1, and the third
  prints, after the weekly grid, the per-course lines that list each course's
  placements; when the reported values satisfy the model these are one placement per
  course (first two scripts) and \<^verbatim>\<open>course_freq[c]\<close> placements of course c (third
  script). In the second script the values drawn at the bounds of line 11 are within
  these bounds; in the third every course has a professor index that the list accepts.
\<close>

theorem placements_iff_status:
  "(solve \<lparr>num_search_workers = None, max_time_in_seconds = None\<rparr>
      (build1 teachers courses rooms slots) = (status, a) \<longrightarrow>
      (status \<noteq> OPTIMAL \<and> status \<noteq> FEASIBLE \<longrightarrow>
         run1 teachers courses rooms slots solve =
           \<lparr>solve_calls = [build1 teachers courses rooms slots], value_reads = [],
            printed = [''No feasible solution.'']\<rparr>) \<and>
      (status = OPTIMAL \<or> status = FEASIBLE \<longrightarrow>
         printed (run1 teachers courses rooms slots solve) =
           ''Timetable:'' #
             map (\<lambda>(c, s, r). placement_line1 courses rooms slots c s r)
               (placements a (length courses) (length slots) (length rooms)) \<and>
         (satisfies a (build1 teachers courses rooms slots) \<longrightarrow>
            length (placements a (length courses) (length slots) (length rooms)) =
              length courses))) \<and>
   (construct2 teachers courses rooms slots rnd = Inr (course_teacher, m2) \<and>
    solve \<lparr>num_search_workers = Some 8, max_time_in_seconds = Some 30\<rparr> m2 = (status, a) \<longrightarrow>
      (status \<noteq> OPTIMAL \<and> status \<noteq> FEASIBLE \<longrightarrow>
         run2 teachers courses rooms slots rnd solve =
           Inr \<lparr>solve_calls = [m2], value_reads = [],
                printed = [''No feasible solution found.'']\<rparr>) \<and>
      ((status = OPTIMAL \<or> status = FEASIBLE) \<and>
       (\<forall>c<length courses. randint_result 0 (int (length teachers) - 1)
                              (rnd c 0 (int (length teachers) - 1))) \<longrightarrow>
         (\<exists>st. run2 teachers courses rooms slots rnd solve = Inr st \<and>
            printed st =
              (''Generated Timetable:'' @ [CHR 0x0A]) #
                map (\<lambda>(c, s, r). placement_line2 courses rooms slots
                        (teachers ! nat (rnd c 0 (int (length teachers) - 1))) c s r)
                  (placements a (length courses) (length slots) (length rooms))) \<and>
         (satisfies a m2 \<longrightarrow>
            length (placements a (length courses) (length slots) (length rooms)) =
              length courses))) \<and>
   (build3 days max_slots_per_day rooms courses course_freq professors course_prof = Inr m3 \<and>
    solve \<lparr>num_search_workers = Some 8, max_time_in_seconds = Some 30\<rparr> m3 = (status, a) \<longrightarrow>
      (status \<noteq> OPTIMAL \<and> status \<noteq> FEASIBLE \<longrightarrow>
         run3 days max_slots_per_day rooms courses course_freq professors course_prof solve =
           Inr \<lparr>solve_calls = [m3], value_reads = [],
                printed = [''No feasible solution found. Try increasing slots per day or relaxing constraints.'']\<rparr>) \<and>
      ((status = OPTIMAL \<or> status = FEASIBLE) \<and>
       (\<forall>c<length courses. \<exists>p. course_prof c = Some p \<and> valid_index professors p) \<longrightarrow>
         (\<exists>st grid.
            run3 days max_slots_per_day rooms courses course_freq professors course_prof solve
              = Inr st \<and>
            printed st =
              grid @ ''Per-course schedule:'' #
                map (\<lambda>c. course_line days rooms courses c
                       (course_sessions a (length days) max_slots_per_day (length rooms) c))
                  [0..<length courses]) \<and>
         (satisfies a m3 \<longrightarrow>
            (\<forall>c<length courses.
               course_freq c =
                 Some (int (length (course_sessions a (length days) max_slots_per_day
                                      (length rooms) c)))))))"
proof (intro conjI impI; (elim conjE)?)
  assume s: "solve \<lparr>num_search_workers = None, max_time_in_seconds = None\<rparr>
      (build1 teachers courses rooms slots) = (status, a)"
  show "run1 teachers courses rooms slots solve =
           \<lparr>solve_calls = [build1 teachers courses rooms slots], value_reads = [],
            printed = [''No feasible solution.'']\<rparr>"
    if "status \<noteq> OPTIMAL" "status \<noteq> FEASIBLE"
    using run1_eq [where solve = solve, OF s] that by simp
  show "printed (run1 teachers courses rooms slots solve) =
           ''Timetable:'' #
             map (\<lambda>(c, s, r). placement_line1 courses rooms slots c s r)
               (placements a (length courses) (length slots) (length rooms))"
    if "status = OPTIMAL \<or> status = FEASIBLE"
    using run1_eq [where solve = solve, OF s] that by auto
  show "length (placements a (length courses) (length slots) (length rooms)) = length courses"
    if "satisfies a (build1 teachers courses rooms slots)"
    using frequency1(2) [OF _ that] by (intro length_placements) blast
next
  assume c: "construct2 teachers courses rooms slots rnd = Inr (course_teacher, m2)"
    and s: "solve \<lparr>num_search_workers = Some 8, max_time_in_seconds = Some 30\<rparr> m2 = (status, a)"
  show "run2 teachers courses rooms slots rnd solve =
           Inr \<lparr>solve_calls = [m2], value_reads = [],
                printed = [''No feasible solution found.'']\<rparr>"
    if "status \<noteq> OPTIMAL" "status \<noteq> FEASIBLE"
    using run2_not_found [where solve = solve, OF c s that] .
  show "\<exists>st. run2 teachers courses rooms slots rnd solve = Inr st \<and>
            printed st =
              (''Generated Timetable:'' @ [CHR 0x0A]) #
                map (\<lambda>(c, s, r). placement_line2 courses rooms slots
                        (teachers ! nat (rnd c 0 (int (length teachers) - 1))) c s r)
                  (placements a (length courses) (length slots) (length rooms))"
    if "status = OPTIMAL \<or> status = FEASIBLE"
      and "\<forall>c<length courses. randint_result 0 (int (length teachers) - 1)
             (rnd c 0 (int (length teachers) - 1))"
    using run2_found [where solve = solve, OF c s that] by simp
  show "length (placements a (length courses) (length slots) (length rooms)) = length courses"
    if "satisfies a m2"
    using frequency2(2) [OF construct2_Inr(2) [OF c] _ that] by (intro length_placements) blast
next
  assume b: "build3 days max_slots_per_day rooms courses course_freq professors course_prof = Inr m3"
    and s: "solve \<lparr>num_search_workers = Some 8, max_time_in_seconds = Some 30\<rparr> m3 = (status, a)"
  show "run3 days max_slots_per_day rooms courses course_freq professors course_prof solve =
           Inr \<lparr>solve_calls = [m3], value_reads = [],
                printed = [''No feasible solution found. Try increasing slots per day or relaxing constraints.'']\<rparr>"
    if "status \<noteq> OPTIMAL" "status \<noteq> FEASIBLE"
    using run3_not_found [where solve = solve, OF b s that] .
  show "\<exists>st grid.
            run3 days max_slots_per_day rooms courses course_freq professors course_prof solve
              = Inr st \<and>
            printed st =
              grid @ ''Per-course schedule:'' #
                map (\<lambda>c. course_line days rooms courses c
                       (course_sessions a (length days) max_slots_per_day (length rooms) c))
                  [0..<length courses]"
    if "status = OPTIMAL \<or> status = FEASIBLE"
      and "\<forall>c<length courses. \<exists>p. course_prof c = Some p \<and> valid_index professors p"
    using run3_found [where solve = solve, OF b s that] .
  show "\<forall>c<length courses.
               course_freq c =
                 Some (int (length (course_sessions a (length days) max_slots_per_day
                                      (length rooms) c)))"
    if "satisfies a m3"
    using frequency3 [OF b, of _ a] that by (auto simp: length_course_sessions)
qed

theorem placements_iff_status_witness:
  "run1 teachers1 courses1 rooms1 slots1 (\<lambda>p m. (INFEASIBLE, \<lambda>v. 0)) =
     \<lparr>solve_calls = [build1 teachers1 courses1 rooms1 slots1], value_reads = [],
      printed = [''No feasible solution.'']\<rparr> \<and>
   satisfies demo_values (build1 teachers1 courses1 rooms1 slots1) \<and>
   printed (run1 teachers1 courses1 rooms1 slots1 (\<lambda>p m. (OPTIMAL, demo_values))) =
     [''Timetable:'', '' Course Math in Room1 at Morning'',
      '' Course Physics in Room1 at Afternoon''] \<and>
   length (placements demo_values (length courses1) (length slots1) (length rooms1)) =
     length courses1 \<and>
   construct2 teachers1 courses1 rooms1 slots1 cycle_source =
     Inr (drawn 2 int, model2 (drawn 2 int) 2 2 2 2) \<and>
   randint_result 0 (int (length teachers1) - 1)
     (cycle_source 0 0 (int (length teachers1) - 1)) \<and>
   randint_result 0 (int (length teachers1) - 1)
     (cycle_source 1 0 (int (length teachers1) - 1)) \<and>
   satisfies demo_values (model2 (drawn 2 int) 2 2 2 2) \<and>
   run2 teachers1 courses1 rooms1 slots1 cycle_source (\<lambda>p m. (INFEASIBLE, \<lambda>v. 0)) =
     Inr \<lparr>solve_calls = [model2 (drawn 2 int) 2 2 2 2], value_reads = [],
          printed = [''No feasible solution found.'']\<rparr> \<and>
   (\<exists>st. run2 teachers1 courses1 rooms1 slots1 cycle_source (\<lambda>p m. (OPTIMAL, demo_values)) = Inr st \<and>
      printed st =
        [''Generated Timetable:'' @ [CHR 0x0A],
         ''Math       taught by Prof A     in Room1  at Morning'',
         ''Physics    taught by Prof B     in Room1  at Afternoon'']) \<and>
   build3 demo_days 2 rooms1 courses1 demo_freq teachers1 demo_owner =
     Inr (model3 demo_freq demo_owner 2 2 2 2 2) \<and>
   demo_owner 0 = Some 0 \<and> valid_index teachers1 0 \<and>
   demo_owner 1 = Some 1 \<and> valid_index teachers1 1 \<and>
   satisfies demo_values (model3 demo_freq demo_owner 2 2 2 2 2) \<and>
   run3 demo_days 2 rooms1 courses1 demo_freq teachers1 demo_owner
       (\<lambda>p m. (INFEASIBLE, \<lambda>v. 0)) =
     Inr \<lparr>solve_calls = [model3 demo_freq demo_owner 2 2 2 2 2], value_reads = [],
          printed = [''No feasible solution found. Try increasing slots per day or relaxing constraints.'']\<rparr> \<and>
   (\<exists>st grid.
      run3 demo_days 2 rooms1 courses1 demo_freq teachers1 demo_owner
          (\<lambda>p m. (OPTIMAL, demo_values)) = Inr st \<and>
      printed st =
        grid @ [''Per-course schedule:'',
                '' Math     -> Mon Slot1 in Room1, Tue Slot1 in Room1'',
                '' Physics  -> Mon Slot2 in Room1'']) \<and>
   demo_freq 1 =
     Some (int (length (course_sessions demo_values (length demo_days) 2 (length rooms1) 1)))"
proof -
  note found = placements_iff_status [where solve = "\<lambda>p m. (OPTIMAL, demo_values)"
      and status = OPTIMAL and a = demo_values
      and teachers = teachers1 and courses = courses1 and rooms = rooms1 and slots = slots1
      and rnd = cycle_source and course_teacher = "drawn 2 int"
      and ?m2.0 = "model2 (drawn 2 int) 2 2 2 2"
      and days = demo_days and max_slots_per_day = 2 and course_freq = demo_freq
      and professors = teachers1 and course_prof = demo_owner
      and ?m3.0 = "model3 demo_freq demo_owner 2 2 2 2 2"]
  note none = placements_iff_status [where solve = "\<lambda>p m. (INFEASIBLE, \<lambda>v. 0)"
      and status = INFEASIBLE and a = "\<lambda>v. 0"
      and teachers = teachers1 and courses = courses1 and rooms = rooms1 and slots = slots1
      and rnd = cycle_source and course_teacher = "drawn 2 int"
      and ?m2.0 = "model2 (drawn 2 int) 2 2 2 2"
      and days = demo_days and max_slots_per_day = 2 and course_freq = demo_freq
      and professors = teachers1 and course_prof = demo_owner
      and ?m3.0 = "model3 demo_freq demo_owner 2 2 2 2 2"]
  have r: "randint_result 0 (int (length teachers1) - 1)
     (cycle_source 0 0 (int (length teachers1) - 1))"
    "randint_result 0 (int (length teachers1) - 1)
     (cycle_source 1 0 (int (length teachers1) - 1))"
    by (simp_all add: demo_lengths randint_result_def cycle_source_def)
  have p: "demo_owner 0 = Some 0" "valid_index teachers1 0"
    "demo_owner 1 = Some 1" "valid_index teachers1 1"
    by (simp_all add: demo_owner_def valid_index_def demo_lengths)
  have n1: "run1 teachers1 courses1 rooms1 slots1 (\<lambda>p m. (INFEASIBLE, \<lambda>v. 0)) =
     \<lparr>solve_calls = [build1 teachers1 courses1 rooms1 slots1], value_reads = [],
      printed = [''No feasible solution.'']\<rparr>"
    using none by simp
  have n2: "run2 teachers1 courses1 rooms1 slots1 cycle_source (\<lambda>p m. (INFEASIBLE, \<lambda>v. 0)) =
     Inr \<lparr>solve_calls = [model2 (drawn 2 int) 2 2 2 2], value_reads = [],
          printed = [''No feasible solution found.'']\<rparr>"
    using none demo_construct2 by simp
  have n3: "run3 demo_days 2 rooms1 courses1 demo_freq teachers1 demo_owner
       (\<lambda>p m. (INFEASIBLE, \<lambda>v. 0)) =
     Inr \<lparr>solve_calls = [model3 demo_freq demo_owner 2 2 2 2 2], value_reads = [],
          printed = [''No feasible solution found. Try increasing slots per day or relaxing constraints.'']\<rparr>"
    using none demo_build3 by simp
  have f1: "printed (run1 teachers1 courses1 rooms1 slots1 (\<lambda>p m. (OPTIMAL, demo_values))) =
     [''Timetable:'', '' Course Math in Room1 at Morning'',
      '' Course Physics in Room1 at Afternoon'']"
    using found demo_lines1 by simp
  have l1: "length (placements demo_values (length courses1) (length slots1) (length rooms1)) =
     length courses1"
    using found demo_satisfies1 by simp
  have f2: "\<exists>st. run2 teachers1 courses1 rooms1 slots1 cycle_source (\<lambda>p m. (OPTIMAL, demo_values)) = Inr st \<and>
      printed st =
        [''Generated Timetable:'' @ [CHR 0x0A],
         ''Math       taught by Prof A     in Room1  at Morning'',
         ''Physics    taught by Prof B     in Room1  at Afternoon'']"
    using found demo_construct2 demo_draws demo_lines2 by simp
  have f3: "\<exists>st grid.
      run3 demo_days 2 rooms1 courses1 demo_freq teachers1 demo_owner
          (\<lambda>p m. (OPTIMAL, demo_values)) = Inr st \<and>
      printed st =
        grid @ [''Per-course schedule:'',
                '' Math     -> Mon Slot1 in Room1, Tue Slot1 in Room1'',
                '' Physics  -> Mon Slot2 in Room1'']"
    using found demo_build3 demo_profs demo_lines3 by simp
  have l3: "demo_freq 1 =
     Some (int (length (course_sessions demo_values (length demo_days) 2 (length rooms1) 1)))"
  proof -
    have "(1::nat) < length courses1" by (simp add: demo_lengths)
    with found demo_build3 demo_profs demo_satisfies3 show ?thesis by blast
  qed
  from n1 n2 n3 f1 l1 f2 f3 l3 r p demo_satisfies1 demo_construct2 demo_satisfies2_drawn
    demo_build3 demo_satisfies3
  show ?thesis by simp
qed

text \<open>
  C10 (the teacher lookup is in bounds). Let the generator keep the library's promise,
  for every call and all bounds: \<^verbatim>\<open>randint(a, b)\<close> with a <= b returns a value from
  a to b. With at least one teacher (or no course) the dict \<^verbatim>\<open>course_teacher\<close> is
  built without error from the bounds line 11 passes, gives every course an index from
  0 to \<^verbatim>\<open>len(teachers) - 1\<close>, and \<^verbatim>\<open>teachers[course_teacher[c]]\<close> returns the
  teacher at that index; the run of the script ends without an exception, whatever the
  solver answers. With no teacher and some course, line 11 itself raises ValueError
  (the range of \<^verbatim>\<open>randint(0, -1)\<close> is empty) and no lookup is reached.
\<close>

theorem teacher_lookup_in_bounds:
  "(randint_promise rnd \<and> (teachers \<noteq> [] \<or> courses = []) \<longrightarrow>
      (\<exists>course_teacher.
         draw_course_teacher teachers courses rnd = Inr course_teacher \<and>
         (\<forall>c<length courses. \<exists>t.
            course_teacher c = Some t \<and> 0 \<le> t \<and> t \<le> int (length teachers) - 1 \<and>
            teacher_of teachers course_teacher c = Inr (teachers ! nat t))) \<and>
      (\<exists>st. run2 teachers courses rooms slots rnd solve = Inr st)) \<and>
   (teachers = [] \<and> courses \<noteq> [] \<longrightarrow>
      draw_course_teacher teachers courses rnd = Inl ValueError)"
proof (intro conjI impI)
  assume h: "randint_promise rnd \<and> (teachers \<noteq> [] \<or> courses = [])"
  let ?r = "\<lambda>c. rnd c 0 (int (length teachers) - 1)"
  have valid: "\<forall>c<length courses. randint_result 0 (int (length teachers) - 1) (?r c)"
  proof (intro allI impI)
    fix c assume "c < length courses"
    with h have "teachers \<noteq> []" by auto
    with h show "randint_result 0 (int (length teachers) - 1) (?r c)"
      by (intro promise_draws) blast+
  qed
  from h have draw: "draw_course_teacher teachers courses rnd = Inr (drawn (length courses) ?r)"
    by (auto simp: draw_course_teacher_eq)
  have "\<exists>t. drawn (length courses) ?r c = Some t \<and> 0 \<le> t \<and> t \<le> int (length teachers) - 1 \<and>
           teacher_of teachers (drawn (length courses) ?r) c = Inr (teachers ! nat t)"
    if c: "c < length courses" for c
  proof -
    from valid c have r: "0 \<le> ?r c" "?r c \<le> int (length teachers) - 1"
      by (auto simp: randint_result_def)
    then have "list_get teachers (?r c) = Inr (teachers ! nat (?r c))"
      by (intro list_get_valid) auto
    with c r show ?thesis by (simp add: drawn_def teacher_of_def dict_get_def)
  qed
  with draw show "\<exists>course_teacher.
         draw_course_teacher teachers courses rnd = Inr course_teacher \<and>
         (\<forall>c<length courses. \<exists>t.
            course_teacher c = Some t \<and> 0 \<le> t \<and> t \<le> int (length teachers) - 1 \<and>
            teacher_of teachers course_teacher c = Inr (teachers ! nat t))"
    by blast
  show "\<exists>st. run2 teachers courses rooms slots rnd solve = Inr st"
    by (rule run2_total [where rnd = rnd and teachers = teachers and courses = courses,
          OF valid])
next
  assume "teachers = [] \<and> courses \<noteq> []"
  then show "draw_course_teacher teachers courses rnd = Inl ValueError"
    by (simp add: draw_course_teacher_eq)
qed

theorem teacher_lookup_in_bounds_witness:
  "randint_promise cycle_source \<and> teachers2 \<noteq> [] \<and>
   draw_course_teacher teachers2 courses2 cycle_source =
     Inr (drawn 20 (\<lambda>c. cycle_source c 0 9)) \<and>
   teacher_of teachers2 (drawn 20 (\<lambda>c. cycle_source c 0 9)) 13 = Inr ''Teacher D'' \<and>
   \<not> isl (run2 teachers2 courses2 rooms2 slots2 cycle_source (\<lambda>p m. (UNKNOWN, \<lambda>v. 0))) \<and>
   courses2 \<noteq> [] \<and>
   draw_course_teacher [] courses2 cycle_source = Inl ValueError"
proof -
  have ne: "teachers2 \<noteq> []" "courses2 \<noteq> []" using lengths2 by auto
  from teacher_lookup_in_bounds [where courses = courses2 and teachers = teachers2
      and rnd = cycle_source and rooms = rooms2 and slots = slots2
      and solve = "\<lambda>p m. (UNKNOWN, \<lambda>v. 0)"]
    cycle_promise ne
  obtain owner st where d: "draw_course_teacher teachers2 courses2 cycle_source = Inr owner"
    and l: "\<forall>c<length courses2. \<exists>t. owner c = Some t \<and> 0 \<le> t \<and> t \<le> int (length teachers2) - 1 \<and>
           teacher_of teachers2 owner c = Inr (teachers2 ! nat t)"
    and run: "run2 teachers2 courses2 rooms2 slots2 cycle_source (\<lambda>p m. (UNKNOWN, \<lambda>v. 0)) = Inr st"
    by blast
  from d ne have o: "owner = drawn 20 (\<lambda>c. cycle_source c 0 9)"
    by (simp add: draw_course_teacher_eq lengths2)
  have "(13::nat) < length courses2" by (simp add: lengths2)
  with l obtain t where t: "owner 13 = Some t"
    "teacher_of teachers2 owner 13 = Inr (teachers2 ! nat t)"
    by blast
  from t(1) have "t = 3" unfolding o by (simp add: drawn_def cycle_source_def)
  moreover have "teachers2 ! 3 = ''Teacher D''" by code_simp
  ultimately have look: "teacher_of teachers2 (drawn 20 (\<lambda>c. cycle_source c 0 9)) 13 =
      Inr ''Teacher D''"
    using t(2) unfolding o by simp
  from teacher_lookup_in_bounds [where courses = courses2 and teachers = "[]"
      and rnd = cycle_source] ne
  have "draw_course_teacher [] courses2 cycle_source = Inl ValueError" by blast
  with cycle_promise ne d o look run show ?thesis by simp
qed

text \<open>
  C5 (determinism of the construction), as the code has it. The model of the second
  script is a function of its data and of the draws of \<^verbatim>\<open>random.randint\<close>: with at
  least one slot and one room, two runs whose draws are within range build the same
  model exactly when they draw the same teacher for every course. (The builders of the
  first and the third script take no draws: their model is a function of the data.)
\<close>

theorem construction_deterministic:
  "(\<forall>c<length courses. randint_result 0 (int (length teachers) - 1)
                         (rnd1 c 0 (int (length teachers) - 1))) \<and>
   (\<forall>c<length courses. randint_result 0 (int (length teachers) - 1)
                         (rnd2 c 0 (int (length teachers) - 1))) \<and>
   slots \<noteq> [] \<and> rooms \<noteq> [] \<longrightarrow>
     (map_sum id snd (construct2 teachers courses rooms slots rnd1) =
      map_sum id snd (construct2 teachers courses rooms slots rnd2) \<longleftrightarrow>
      (\<forall>c<length courses. rnd1 c 0 (int (length teachers) - 1) =
                           rnd2 c 0 (int (length teachers) - 1)))"
  using construct2_models [of courses teachers rnd1 rnd2 slots rooms] by blast

theorem construction_deterministic_witness:
  "randint_promise cycle_source \<and> randint_promise (\<lambda>k a b. a) \<and>
   randint_promise (\<lambda>k a b. if k < 2 then cycle_source k a b else b) \<and>
   teachers1 \<noteq> [] \<and> slots1 \<noteq> [] \<and> rooms1 \<noteq> [] \<and>
   map_sum id snd (construct2 teachers1 courses1 rooms1 slots1 cycle_source) \<noteq>
   map_sum id snd (construct2 teachers1 courses1 rooms1 slots1 (\<lambda>k a b. a)) \<and>
   map_sum id snd (construct2 teachers1 courses1 rooms1 slots1 cycle_source) =
   map_sum id snd (construct2 teachers1 courses1 rooms1 slots1
     (\<lambda>k a b. if k < 2 then cycle_source k a b else b))"
proof -
  let ?low = "\<lambda>(k::nat) (a::int) (b::int). a"
  let ?mix = "\<lambda>(k::nat) (a::int) (b::int). if k < 2 then cycle_source k a b else b"
  have p: "randint_promise ?low" "randint_promise ?mix"
    using cycle_promise by (auto simp: randint_promise_def randint_result_def)
  have ne: "teachers1 \<noteq> []" "slots1 \<noteq> []" "rooms1 \<noteq> []"
    by (simp_all add: teachers1_def slots1_def rooms1_def)
  have v: "\<forall>c<length courses1. randint_result 0 (int (length teachers1) - 1)
             (rnd c 0 (int (length teachers1) - 1))" if "randint_promise rnd" for rnd
    using promise_draws [OF that ne(1)] by blast
  have "\<not> (\<forall>c<length courses1. cycle_source c 0 (int (length teachers1) - 1) =
             ?low c 0 (int (length teachers1) - 1))"
    by (simp add: demo_lengths cycle_source_def) (rule exI [of _ 1], simp)
  with construction_deterministic [where courses = courses1 and teachers = teachers1
      and slots = slots1 and rooms = rooms1 and ?rnd1.0 = cycle_source and ?rnd2.0 = ?low]
    v [OF cycle_promise] v [OF p(1)] ne
  have a: "map_sum id snd (construct2 teachers1 courses1 rooms1 slots1 cycle_source) \<noteq>
   map_sum id snd (construct2 teachers1 courses1 rooms1 slots1 ?low)"
    by blast
  have "\<forall>c<length courses1. cycle_source c 0 (int (length teachers1) - 1) =
          ?mix c 0 (int (length teachers1) - 1)"
    by (simp add: demo_lengths)
  with construction_deterministic [where courses = courses1 and teachers = teachers1
      and slots = slots1 and rooms = rooms1 and ?rnd1.0 = cycle_source and ?rnd2.0 = ?mix]
    v [OF cycle_promise] v [OF p(2)] ne
  have b: "map_sum id snd (construct2 teachers1 courses1 rooms1 slots1 cycle_source) =
   map_sum id snd (construct2 teachers1 courses1 rooms1 slots1 ?mix)"
    by blast
  from cycle_promise p ne a b show ?thesis by simp
qed

text \<open>
  C5, where the claim fails. On the second script's own data, a generator that always
  returns its lower bound (teacher 0 for every course) and one that always returns its
  upper bound (teacher 9 for every course) both keep the library's promise, and the two
  runs build different models.
\<close>

theorem construction_deterministic_counterexample:
  "randint_promise (\<lambda>k a b. a) \<and> randint_promise (\<lambda>k a b. b) \<and>
   map_sum id snd (construct2 teachers2 courses2 rooms2 slots2 (\<lambda>k a b. a)) \<noteq>
   map_sum id snd (construct2 teachers2 courses2 rooms2 slots2 (\<lambda>k a b. b))"
proof -
  let ?low = "\<lambda>(k::nat) (a::int) (b::int). a"
  let ?high = "\<lambda>(k::nat) (a::int) (b::int). b"
  have p: "randint_promise ?low" "randint_promise ?high"
    by (simp_all add: randint_promise_def randint_result_def)
  have ne: "teachers2 \<noteq> []" "slots2 \<noteq> []" "rooms2 \<noteq> []" using lengths2 by auto
  have v: "\<forall>c<length courses2. randint_result 0 (int (length teachers2) - 1)
             (rnd c 0 (int (length teachers2) - 1))" if "randint_promise rnd" for rnd
    using promise_draws [OF that ne(1)] by blast
  have "\<not> (\<forall>c<length courses2. ?low c 0 (int (length teachers2) - 1) =
             ?high c 0 (int (length teachers2) - 1))"
    by (simp add: lengths2) (rule exI [of _ 0], simp)
  with construct2_models [of courses2 teachers2 ?low ?high slots2 rooms2]
    v [OF p(1)] v [OF p(2)] ne(2,3)
  have "map_sum id snd (construct2 teachers2 courses2 rooms2 slots2 ?low) \<noteq>
   map_sum id snd (construct2 teachers2 courses2 rooms2 slots2 ?high)"
    by blast
  with p show ?thesis by simp
qed

text \<open>
  C3 (usage indicators), as the code has it. In every assignment that satisfies the
  third model, a placement at slot (d, s) makes \<^verbatim>\<open>y[d,s]\<close> true. The converse is not
  a constraint (the source leaves it as a comment): \<^verbatim>\<open>y[d,s]\<close> may be 1 at a slot
  without placement, and then setting it to 0 gives another satisfying assignment whose
  objective is smaller by one.
\<close>

theorem usage_indicator:
  "build3 days max_slots_per_day rooms courses course_freq professors course_prof = Inr m \<and>
   satisfies a m \<and> d < length days \<and> s < max_slots_per_day \<longrightarrow>
     (course < length courses \<and> room < length rooms \<and> a (Xd course d s room) = 1 \<longrightarrow>
        a (Yd d s) = 1) \<and>
     (a (Yd d s) = 1 \<and>
      placed a [Xd c d s r. c \<leftarrow> [0..<length courses], r \<leftarrow> [0..<length rooms]] = [] \<longrightarrow>
        satisfies (a(Yd d s := 0)) m \<and>
        objective_value (a(Yd d s := 0)) m = objective_value a m - 1)"
proof (intro impI conjI; elim conjE)
  assume b: "build3 days max_slots_per_day rooms courses course_freq professors course_prof = Inr m"
    and sat: "satisfies a m" and d: "d < length days" and s: "s < max_slots_per_day"
  show "a (Yd d s) = 1"
    if "course < length courses" "room < length rooms" "a (Xd course d s room) = 1"
    using link3_forces [OF b d s that(1,2) sat that(3)] .
  show "satisfies (a(Yd d s := 0)) m"
    if "a (Yd d s) = 1"
      "placed a [Xd c d s r. c \<leftarrow> [0..<length courses], r \<leftarrow> [0..<length rooms]] = []"
    using clear_indicator(1) [OF b sat d s that] .
  show "objective_value (a(Yd d s := 0)) m = objective_value a m - 1"
    if "a (Yd d s) = 1"
      "placed a [Xd c d s r. c \<leftarrow> [0..<length courses], r \<leftarrow> [0..<length rooms]] = []"
    using clear_indicator(2) [OF b sat d s that] .
qed

theorem usage_indicator_witness:
  "build3 days3 max_slots_per_day3 rooms3 courses3 course_freq3 professors3 course_prof3 =
     Inr (model3 course_freq3 course_prof3 2 6 5 6 3) \<and>
   satisfies week_values (model3 course_freq3 course_prof3 2 6 5 6 3) \<and>
   (0::nat) < length days3 \<and> (0::nat) < max_slots_per_day3 \<and> (5::nat) < max_slots_per_day3 \<and>
   (0::nat) < length courses3 \<and> (0::nat) < length rooms3 \<and>
   week_values (Xd 0 0 0 0) = 1 \<and> week_values (Yd 0 0) = 1 \<and>
   week_values (Yd 0 5) = 1 \<and>
   placed week_values [Xd c 0 5 r. c \<leftarrow> [0..<length courses3], r \<leftarrow> [0..<length rooms3]] = [] \<and>
   satisfies (week_values(Yd 0 5 := 0)) (model3 course_freq3 course_prof3 2 6 5 6 3) \<and>
   objective_value (week_values(Yd 0 5 := 0)) (model3 course_freq3 course_prof3 2 6 5 6 3) =
     objective_value week_values (model3 course_freq3 course_prof3 2 6 5 6 3) - 1"
proof -
  have h: "(0::nat) < length days3" "(0::nat) < max_slots_per_day3" "(5::nat) < max_slots_per_day3"
    "(0::nat) < length courses3" "(0::nat) < length rooms3"
    by (simp_all add: lengths3)
  have x: "week_values (Xd 0 0 0 0) = 1" and y: "week_values (Yd 0 5) = 1"
    by (simp_all add: week_values_def)
  have e: "placed week_values [Xd c 0 5 r. c \<leftarrow> [0..<length courses3], r \<leftarrow> [0..<length rooms3]] = []"
    unfolding lengths3 by code_simp
  note used = usage_indicator [where days = days3 and max_slots_per_day = max_slots_per_day3
      and rooms = rooms3 and courses = courses3 and course_freq = course_freq3
      and professors = professors3 and course_prof = course_prof3
      and m = "model3 course_freq3 course_prof3 2 6 5 6 3" and a = week_values
      and d = 0 and s = 0 and course = 0 and room = 0]
  note unused = usage_indicator [where days = days3 and max_slots_per_day = max_slots_per_day3
      and rooms = rooms3 and courses = courses3 and course_freq = course_freq3
      and professors = professors3 and course_prof = course_prof3
      and m = "model3 course_freq3 course_prof3 2 6 5 6 3" and a = week_values
      and d = 0 and s = 5 and course = 0 and room = 0]
  from used h x build3_script week_satisfies have y0: "week_values (Yd 0 0) = 1" by blast
  from unused h y e build3_script week_satisfies
  have c: "satisfies (week_values(Yd 0 5 := 0)) (model3 course_freq3 course_prof3 2 6 5 6 3)"
    "objective_value (week_values(Yd 0 5 := 0)) (model3 course_freq3 course_prof3 2 6 5 6 3) =
     objective_value week_values (model3 course_freq3 course_prof3 2 6 5 6 3) - 1"
    by blast+
  from h x y y0 e c build3_script week_satisfies show ?thesis by blast
qed

text \<open>
  C3, where the claim fails. For the third script's own data, \<open>week_values\<close> satisfies the model and sets
  \<^verbatim>\<open>y\<close> of Monday's last slot to 1 although no course is placed there.
\<close>

theorem usage_indicator_counterexample:
  "build3 days3 max_slots_per_day3 rooms3 courses3 course_freq3 professors3 course_prof3 =
     Inr (model3 course_freq3 course_prof3 2 6 5 6 3) \<and>
   satisfies week_values (model3 course_freq3 course_prof3 2 6 5 6 3) \<and>
   week_values (Yd 0 5) = 1 \<and>
   placed week_values [Xd c 0 5 r. c \<leftarrow> [0..<length courses3], r \<leftarrow> [0..<length rooms3]] = []"
proof -
  have "week_values (Yd 0 5) = 1" by (simp add: week_values_def)
  moreover have "placed week_values [Xd c 0 5 r. c \<leftarrow> [0..<6], r \<leftarrow> [0..<3]] = []"
    by code_simp
  ultimately show ?thesis using build3_script week_satisfies by (simp add: lengths3)
qed




end
